theory Spec2Isabelle
  imports Main
begin

section \<open>Python values and exceptions\<close>

text \<open>
  The program is a single Python module, \<^verbatim>\<open>openconnect_gp_okta.py\<close>.  Python \<^verbatim>\<open>str\<close> and
  \<^verbatim>\<open>bytes\<close> values are both modelled as \<^typ>\<open>string\<close> (a text is represented by its UTF-8
  bytes).  Every exception the module can raise through its own expressions (a missing
  dictionary key, an attribute of \<^verbatim>\<open>None\<close>, a failed \<^verbatim>\<open>assert\<close>, \<^verbatim>\<open>raise_for_status\<close>,
  the explicit \<^verbatim>\<open>raise Exception(...)\<close>) is a value of type \<open>error\<close>; \<open>LibraryError\<close> stands
  for an exception raised inside a library parser or decoder.
\<close>

datatype error =
    KeyError
  | TypeError
  | AttributeError
  | AssertionError
  | HTTPError
  | JSONDecodeError
  | LibraryError string
  | PyException string

text \<open>
  The outcome of a call: it raises, it returns, or (for the one unbounded loop of the
  module) the model ran out of fuel before the loop ended.
\<close>

datatype 'a result = OutOfFuel | Raise error | Return 'a

definition rbind :: "'a result \<Rightarrow> ('a \<Rightarrow> 'b result) \<Rightarrow> 'b result" where
  "rbind m f = (case m of OutOfFuel \<Rightarrow> OutOfFuel | Raise e \<Rightarrow> Raise e | Return x \<Rightarrow> f x)"

text \<open>
  A Python \<^verbatim>\<open>dict\<close> with string keys is an association list with distinct keys in
  insertion order.  \<open>dict_set\<close> is \<^verbatim>\<open>d[k] = v\<close>: an existing key keeps its position and
  takes the new value, a new key is appended.  \<open>dict_get\<close> is \<^verbatim>\<open>d[k]\<close>.
\<close>

fun dict_set :: "('k \<times> 'v) list \<Rightarrow> 'k \<Rightarrow> 'v \<Rightarrow> ('k \<times> 'v) list" where
  "dict_set [] k v = [(k, v)]"
| "dict_set ((k', v') # d) k v = (if k' = k then (k, v) # d else (k', v') # dict_set d k v)"

definition dict_get :: "('k \<times> 'v) list \<Rightarrow> 'k \<Rightarrow> 'v result" where
  "dict_get d k = (case map_of d k of None \<Rightarrow> Raise KeyError | Some v \<Rightarrow> Return v)"

section \<open>Element trees (lxml.etree)\<close>

text \<open>
  An element of a parsed document: its tag, its attributes (\<^verbatim>\<open>.attrib\<close>), its text
  (\<^verbatim>\<open>.text\<close>, \<^verbatim>\<open>None\<close> when the element has none) and its child elements in document order.
  Comments and processing instructions never match a tag name and are left out.
\<close>

datatype element =
  Element (tag: string) (attrib: "(string \<times> string) list") (etext: "string option")
    (children: "element list")

text \<open>\<^verbatim>\<open>e.iter()\<close> without \<^verbatim>\<open>e\<close> itself: the proper descendants in document order.\<close>

fun iter_descendants :: "element \<Rightarrow> element list" where
  "iter_descendants (Element t a x cs) = concat (map (\<lambda>c. c # iter_descendants c) cs)"

text \<open>\<^verbatim>\<open>e.find('.//name')\<close>: the first descendant with that tag, or \<^verbatim>\<open>None\<close>.\<close>

definition find_descendant :: "string \<Rightarrow> element \<Rightarrow> element option" where
  "find_descendant name e = List.find (\<lambda>d. tag d = name) (iter_descendants e)"

text \<open>\<^verbatim>\<open>e.find('name')\<close>: the first child with that tag, or \<^verbatim>\<open>None\<close>.\<close>

definition find_child :: "string \<Rightarrow> element \<Rightarrow> element option" where
  "find_child name e = List.find (\<lambda>c. tag c = name) (children e)"

text \<open>\<^verbatim>\<open>e.findall('name')\<close>: the children with that tag, in document order.\<close>

definition findall :: "string \<Rightarrow> element \<Rightarrow> element list" where
  "findall name e = filter (\<lambda>c. tag c = name) (children e)"

section \<open>extract_form\<close>

text \<open>
  The dictionary comprehension
  \<^verbatim>\<open>{inp.attrib['name']: inp.attrib['value'] for inp in form.findall('input')}\<close>,
  run over the inputs from left to right with the dictionary built so far.
\<close>

fun input_fields :: "element list \<Rightarrow> (string \<times> string) list \<Rightarrow> (string \<times> string) list result" where
  "input_fields [] d = Return d"
| "input_fields (inp # rest) d =
     rbind (dict_get (attrib inp) ''name'') (\<lambda>n.
     rbind (dict_get (attrib inp) ''value'') (\<lambda>v.
     input_fields rest (dict_set d n v)))"

text \<open>
  \<^verbatim>\<open>extract_form(html)\<close>.  The HTML parser
  \<^verbatim>\<open>lxml.etree.fromstring(html, lxml.etree.HTMLParser())\<close> is the parameter \<open>parse_html\<close>.
  \<^verbatim>\<open>find\<close> returns \<^verbatim>\<open>None\<close> when the document has no form, and \<^verbatim>\<open>None.attrib\<close> raises
  \<^verbatim>\<open>AttributeError\<close>.  The tuple is evaluated left to right: the action first.
\<close>

definition extract_form ::
  "(string \<Rightarrow> element result) \<Rightarrow> string \<Rightarrow> (string \<times> (string \<times> string) list) result" where
  "extract_form parse_html html =
     rbind (parse_html html) (\<lambda>root.
       case find_descendant ''form'' root of
         None \<Rightarrow> Raise AttributeError
       | Some form \<Rightarrow>
           rbind (dict_get (attrib form) ''action'') (\<lambda>action.
           rbind (input_fields (findall ''input'' form) []) (\<lambda>fields.
           Return (action, fields))))"

section \<open>JSON values\<close>

text \<open>
  What \<^verbatim>\<open>r.json()\<close> returns: \<^verbatim>\<open>None\<close>, a \<^verbatim>\<open>bool\<close>, a number, a \<^verbatim>\<open>str\<close>, a \<^verbatim>\<open>list\<close> or a
  \<^verbatim>\<open>dict\<close> with string keys.  The module only compares JSON values with string literals,
  subscripts them with string keys and passes them on, so a number is kept as an integer.
\<close>

datatype json =
    JNull
  | JBool bool
  | JNum int
  | JStr string
  | JArr "json list"
  | JObj "(string \<times> json) list"

text \<open>
  \<^verbatim>\<open>x['key']\<close> on a JSON value: \<^verbatim>\<open>KeyError\<close> on a dictionary without the key, \<^verbatim>\<open>TypeError\<close>
  on everything that is not a dictionary (a list or a string wants integer indices, the
  others are not subscriptable).
\<close>

fun getitem :: "json \<Rightarrow> string \<Rightarrow> json result" where
  "getitem (JObj d) k = dict_get d k"
| "getitem _ k = Raise TypeError"

text \<open>
  Iterating over a JSON value, as \<^verbatim>\<open>sorted\<close> does: a list yields its elements, a dictionary
  its keys, a string its one-character strings; the others are not iterable.
\<close>

fun iterate :: "json \<Rightarrow> json list result" where
  "iterate (JArr xs) = Return xs"
| "iterate (JObj d) = Return (map (\<lambda>kv. JStr (fst kv)) d)"
| "iterate (JStr s) = Return (map (\<lambda>c. JStr [c]) s)"
| "iterate _ = Raise TypeError"

section \<open>The HTTP session and the libraries\<close>

datatype http_method = GET | POST

text \<open>
  The body or query of a request: nothing, \<^verbatim>\<open>data=json.dumps(data)\<close> with the JSON content
  type, \<^verbatim>\<open>data=<dict>\<close> (a form submission), or \<^verbatim>\<open>params=<dict>\<close>.
\<close>

datatype payload =
    NoBody
  | JsonBody json
  | FormData "(string \<times> string) list"
  | Params "(string \<times> json) list"

datatype request = Request (req_method: http_method) (req_url: json) (req_payload: payload)

text \<open>
  A response: its status code, its body (\<^verbatim>\<open>.content\<close>), its headers as the list of their
  names and values, and what \<^verbatim>\<open>.json()\<close> decodes the body to (\<^verbatim>\<open>None\<close> when it raises).
\<close>

record response =
  status_code :: nat
  content :: string
  headers :: "(string \<times> string) list"
  json_body :: "json option"

text \<open>
  Everything the module does not implement itself is a field of the environment: the
  \<^verbatim>\<open>requests\<close> session together with the servers behind it (\<open>http\<close> gives the response to
  the last request of a history of requests), the \<^verbatim>\<open>lxml\<close> parsers, \<^verbatim>\<open>base64.b64decode\<close>,
  \<^verbatim>\<open>urllib.parse.urlencode\<close> and \<^verbatim>\<open>urlparse(...).netloc\<close>, \<^verbatim>\<open>str(uuid.getnode())\<close>,
  \<^verbatim>\<open>pyotp.TOTP(key).now()\<close>, \<^verbatim>\<open>input\<close>, \<^verbatim>\<open>str()\<close> of a JSON value that is not a string,
  whether \<^verbatim>\<open>pyotp\<close> could be imported, \<^verbatim>\<open>keyring.get_password\<close>, \<^verbatim>\<open>getpass.getpass()\<close>,
  the exception \<^verbatim>\<open>subprocess.Popen\<close> raises (if any) and the return code \<^verbatim>\<open>Popen.wait()\<close>
  records for the child.
\<close>

record environment =
  http :: "request list \<Rightarrow> response"
  parse_xml :: "string \<Rightarrow> element result"
  parse_html :: "string \<Rightarrow> element result"
  b64decode :: "string \<Rightarrow> string result"
  urlencode :: "(string \<times> string) list \<Rightarrow> string"
  netloc :: "string \<Rightarrow> string"
  getnode :: string
  totp_now :: "string \<Rightarrow> string result"
  input :: "string \<Rightarrow> string"
  repr :: "json \<Rightarrow> string"
  pyotp_present :: bool
  keyring_get_password :: "string \<Rightarrow> string \<Rightarrow> string option"
  getpass :: string
  popen_error :: "error option"
  child_returncode :: int

text \<open>
  The session is the history of the requests sent through it.  A stateful call takes the
  session and returns its outcome with the session after it.
\<close>

type_synonym session = "request list"

definition sbind ::
  "'a result \<times> 's \<Rightarrow> ('a \<Rightarrow> 's \<Rightarrow> 'b result \<times> 's) \<Rightarrow> 'b result \<times> 's" where
  "sbind m f =
     (case m of
        (OutOfFuel, s) \<Rightarrow> (OutOfFuel, s)
      | (Raise e, s) \<Rightarrow> (Raise e, s)
      | (Return x, s) \<Rightarrow> f x s)"

text \<open>\<^verbatim>\<open>s.post(...)\<close> and \<^verbatim>\<open>s.get(...)\<close>: the request joins the history, the environment answers.\<close>

definition send :: "environment \<Rightarrow> request \<Rightarrow> session \<Rightarrow> response \<times> session" where
  "send env req s = (http env (s @ [req]), s @ [req])"

text \<open>\<^verbatim>\<open>check(r)\<close>: \<^verbatim>\<open>raise_for_status\<close> raises for the status codes 400 to 599.\<close>

definition check :: "response \<Rightarrow> response result" where
  "check r = (if 400 \<le> status_code r \<and> status_code r < 600 then Raise HTTPError else Return r)"

section \<open>prelogin\<close>

definition prelogin_request :: "string \<Rightarrow> request" where
  "prelogin_request gateway =
     Request POST (JStr (''https://'' @ gateway @ ''/ssl-vpn/prelogin.esp'')) NoBody"

text \<open>
  \<^verbatim>\<open>prelogin(s, gateway)\<close>.  \<^verbatim>\<open>find('saml-request')\<close> is \<^verbatim>\<open>None\<close> when the element is absent
  (then \<^verbatim>\<open>.text\<close> raises \<^verbatim>\<open>AttributeError\<close>); \<^verbatim>\<open>.text\<close> is \<^verbatim>\<open>None\<close> when the element is empty
  (then \<^verbatim>\<open>b64decode\<close> raises \<^verbatim>\<open>TypeError\<close>).
\<close>

definition prelogin :: "environment \<Rightarrow> string \<Rightarrow> session \<Rightarrow> string result \<times> session" where
  "prelogin env gateway s =
     (let (resp, s) = send env (prelogin_request gateway) s in
      sbind (check resp, s) (\<lambda>r s.
      sbind (parse_xml env (content r), s) (\<lambda>root s.
        case find_child ''saml-request'' root of
          None \<Rightarrow> (Raise AttributeError, s)
        | Some el \<Rightarrow>
            (case etext el of
               None \<Rightarrow> (Raise TypeError, s)
             | Some t \<Rightarrow>
                 sbind (b64decode env t, s) (\<lambda>saml_req_html s.
                 sbind (extract_form (parse_html env) saml_req_html, s)
                   (\<lambda>(saml_req_url, saml_req_data) s.
                 if ''SAMLRequest'' \<notin> set (map fst saml_req_data) then (Raise AssertionError, s)
                 else (Return (saml_req_url @ ''?'' @ urlencode env saml_req_data), s)))))))"

section \<open>post_json\<close>

text \<open>
  \<^verbatim>\<open>post_json(s, url, data)\<close>: the device token joins the data under \<^verbatim>\<open>context\<close>, the
  dictionary is posted as JSON, and the decoded JSON body of the checked response is
  returned (\<^verbatim>\<open>r.json()\<close> raises when the body is not JSON).
\<close>

definition json_request :: "environment \<Rightarrow> json \<Rightarrow> (string \<times> json) list \<Rightarrow> request" where
  "json_request env url data =
     Request POST url
       (JsonBody (JObj (dict_set data ''context'' (JObj [(''deviceToken'', JStr (getnode env))]))))"

definition post_json ::
  "environment \<Rightarrow> json \<Rightarrow> (string \<times> json) list \<Rightarrow> session \<Rightarrow> json result \<times> session" where
  "post_json env url data s =
     (let (resp, s) = send env (json_request env url data) s in
      sbind (check resp, s) (\<lambda>r s.
        case json_body r of
          None \<Rightarrow> (Raise JSONDecodeError, s)
        | Some j \<Rightarrow> (Return j, s)))"

section \<open>okta_auth\<close>

text \<open>
  \<^verbatim>\<open>priority(factor)\<close>: the rank of a factor in the sort.  The factor type is looked up in
  the dictionary \<^verbatim>\<open>{'token:software:totp': 2 if totp_key is None else 0, 'push': 1}\<close> with
  the default 2.  A list or a dictionary as factor type is unhashable (\<^verbatim>\<open>TypeError\<close>); the
  other values that are not strings are hashable and not in the dictionary.
\<close>

definition priority :: "string option \<Rightarrow> json \<Rightarrow> nat result" where
  "priority totp_key factor =
     rbind (getitem factor ''factorType'') (\<lambda>ty.
       case ty of
         JStr name \<Rightarrow>
           Return (case map_of [(''token:software:totp'', if totp_key = None then 2 else 0),
                                (''push'', 1)] name of
                     None \<Rightarrow> 2
                   | Some p \<Rightarrow> p)
       | JArr _ \<Rightarrow> Raise TypeError
       | JObj _ \<Rightarrow> Raise TypeError
       | _ \<Rightarrow> Return 2)"

text \<open>The keys of the items, computed from left to right; the first exception ends it.\<close>

fun keys_of :: "('a \<Rightarrow> nat result) \<Rightarrow> 'a list \<Rightarrow> nat list result" where
  "keys_of key [] = Return []"
| "keys_of key (x # xs) = rbind (key x) (\<lambda>k. rbind (keys_of key xs) (\<lambda>ks. Return (k # ks)))"

text \<open>
  \<^verbatim>\<open>sorted(iterable, key=key)\<close>: the key of every item is computed once, then the items are
  sorted by their keys; the sort is stable.
\<close>

definition sorted_by_key :: "(json \<Rightarrow> nat result) \<Rightarrow> json \<Rightarrow> json list result" where
  "sorted_by_key key iterable =
     rbind (iterate iterable) (\<lambda>items.
     rbind (keys_of key items) (\<lambda>ks.
     Return (map snd (sort_key fst (zip ks items)))))"

text \<open>
  \<^verbatim>\<open>re.match('token(?::|$)', ty)\<close> on a string: \<^verbatim>\<open>token\<close> at the start, followed by a colon
  or by the end of the string (\<^verbatim>\<open>$\<close> also matches before a final newline).  On a value that
  is not a string \<^verbatim>\<open>re.match\<close> raises \<^verbatim>\<open>TypeError\<close>.
\<close>

definition token_match :: "string \<Rightarrow> bool" where
  "token_match ty \<longleftrightarrow>
     take 5 ty = ''token'' \<and>
     (drop 5 ty = [] \<or> drop 5 ty = [CHR 0x0A] \<or> take 1 (drop 5 ty) = '':'')"

definition re_match_token :: "json \<Rightarrow> bool result" where
  "re_match_token ty = (case ty of JStr name \<Rightarrow> Return (token_match name) | _ \<Rightarrow> Raise TypeError)"

text \<open>\<^verbatim>\<open>factor['_links']['verify']['href']\<close>.\<close>

definition verify_href :: "json \<Rightarrow> json result" where
  "verify_href factor =
     rbind (getitem factor ''_links'') (\<lambda>links.
     rbind (getitem links ''verify'') (\<lambda>verify.
     getitem verify ''href''))"

text \<open>
  The \<^verbatim>\<open>while True\<close> loop of the push factor.  One unit of fuel is one iteration; the loop
  has no bound of its own, and \<open>OutOfFuel\<close> says that it was still polling when the fuel
  ended.  The body of each request is
  \<^verbatim>\<open>{'stateToken': r['stateToken'], 'rememberDevice': True}\<close> with the last response \<^verbatim>\<open>r\<close>.
\<close>

definition push_data :: "json \<Rightarrow> (string \<times> json) list" where
  "push_data state_token = [(''stateToken'', state_token), (''rememberDevice'', JBool True)]"

fun push_poll :: "nat \<Rightarrow> environment \<Rightarrow> json \<Rightarrow> json \<Rightarrow> session \<Rightarrow> json result \<times> session" where
  "push_poll 0 env href r s = (OutOfFuel, s)"
| "push_poll (Suc fuel) env href r s =
     sbind (getitem r ''stateToken'', s) (\<lambda>state_token s.
     sbind (post_json env href (push_data state_token) s) (\<lambda>r s.
     sbind (getitem r ''status'', s) (\<lambda>status s.
     if status \<noteq> JStr ''MFA_CHALLENGE'' then (Return r, s)
     else
       sbind (getitem r ''factorResult'', s) (\<lambda>factor_result s.
       if factor_result = JStr ''WAITING'' then push_poll fuel env href r s
       else (Raise AssertionError, s)))))"

definition push_factor ::
  "nat \<Rightarrow> environment \<Rightarrow> json \<Rightarrow> json \<Rightarrow> session \<Rightarrow> json result \<times> session" where
  "push_factor fuel env factor r s =
     sbind (verify_href factor, s) (\<lambda>href s. push_poll fuel env href r s)"

text \<open>The branch of the sms factor: trigger the message, ask for the code, post it.\<close>

definition sms_factor :: "environment \<Rightarrow> json \<Rightarrow> json \<Rightarrow> session \<Rightarrow> json result \<times> session" where
  "sms_factor env factor r s =
     sbind (verify_href factor, s) (\<lambda>href s.
     sbind (getitem r ''stateToken'', s) (\<lambda>state_token s.
     sbind (post_json env href [(''stateToken'', state_token)] s) (\<lambda>r s.
     sbind (getitem r ''status'', s) (\<lambda>status s.
     if status \<noteq> JStr ''MFA_CHALLENGE'' then (Raise AssertionError, s)
     else
       (let code = input env ''SMS code: '' in
        sbind (getitem r ''stateToken'', s) (\<lambda>state_token s.
        post_json env href [(''stateToken'', state_token), (''passCode'', JStr code)] s))))))"

text \<open>\<^verbatim>\<open>str(x)\<close> of a JSON value, as an f-string formats it: a string is itself.\<close>

definition str_of :: "environment \<Rightarrow> json \<Rightarrow> string" where
  "str_of env x = (case x of JStr s \<Rightarrow> s | _ \<Rightarrow> repr env x)"

text \<open>
  The branch of the token factors: arm the factor, take the code from the TOTP generator
  (software TOTP with a key) or from the user, post it.
\<close>

definition token_prompt :: "environment \<Rightarrow> json \<Rightarrow> string result" where
  "token_prompt env factor =
     rbind (getitem factor ''provider'') (\<lambda>provider.
     rbind (getitem factor ''vendorName'') (\<lambda>vendor_name.
     Return (input env (''One-time code for '' @ str_of env provider @
                          '' ('' @ str_of env vendor_name @ ''): ''))))"

definition token_code :: "environment \<Rightarrow> string option \<Rightarrow> json \<Rightarrow> string result" where
  "token_code env totp_key factor =
     rbind (getitem factor ''factorType'') (\<lambda>ty.
       case totp_key of
         Some key \<Rightarrow>
           if ty = JStr ''token:software:totp'' then totp_now env key
           else token_prompt env factor
       | None \<Rightarrow> token_prompt env factor)"

definition token_factor ::
  "environment \<Rightarrow> string option \<Rightarrow> json \<Rightarrow> json \<Rightarrow> session \<Rightarrow> json result \<times> session" where
  "token_factor env totp_key factor r s =
     sbind (verify_href factor, s) (\<lambda>href s.
     sbind (getitem r ''stateToken'', s) (\<lambda>state_token s.
     sbind (post_json env href [(''stateToken'', state_token)] s) (\<lambda>r s.
     sbind (getitem r ''status'', s) (\<lambda>status s.
     if status \<noteq> JStr ''MFA_CHALLENGE'' then (Raise AssertionError, s)
     else
       sbind (token_code env totp_key factor, s) (\<lambda>code s.
       sbind (getitem r ''stateToken'', s) (\<lambda>state_token s.
       post_json env href [(''stateToken'', state_token), (''passCode'', JStr code)] s))))))"

text \<open>
  The \<^verbatim>\<open>for factor in sorted(...)\<close> loop with its \<^verbatim>\<open>else\<close> clause.  Every branch ends in
  \<^verbatim>\<open>break\<close>; a factor that matches no branch is passed over; the \<^verbatim>\<open>else\<close> clause runs when
  the list ends without a \<^verbatim>\<open>break\<close>.  (The source reads \<^verbatim>\<open>factor['factorType']\<close> once per
  test; the reads give the same value.)
\<close>

fun factor_loop ::
  "nat \<Rightarrow> environment \<Rightarrow> string option \<Rightarrow> json list \<Rightarrow> json \<Rightarrow> session \<Rightarrow> json result \<times> session"
  where
  "factor_loop fuel env totp_key [] r s =
     (Raise (PyException ''No supported authentication factors''), s)"
| "factor_loop fuel env totp_key (factor # rest) r s =
     sbind (getitem factor ''factorType'', s) (\<lambda>ty s.
     if ty = JStr ''push'' then push_factor fuel env factor r s
     else if ty = JStr ''sms'' then sms_factor env factor r s
     else
       sbind (re_match_token ty, s) (\<lambda>m s.
       if m then token_factor env totp_key factor r s
       else factor_loop fuel env totp_key rest r s))"

text \<open>The body of \<^verbatim>\<open>if r['status'] == 'MFA_REQUIRED':\<close>.\<close>

definition mfa_required ::
  "nat \<Rightarrow> environment \<Rightarrow> string option \<Rightarrow> json \<Rightarrow> session \<Rightarrow> json result \<times> session" where
  "mfa_required fuel env totp_key r s =
     sbind (rbind (getitem r ''_embedded'') (\<lambda>embedded. getitem embedded ''factors''), s)
       (\<lambda>factors s.
     sbind (sorted_by_key (priority totp_key) factors, s) (\<lambda>ordered s.
     factor_loop fuel env totp_key ordered r s))"

definition authn_request :: "environment \<Rightarrow> string \<Rightarrow> string \<Rightarrow> string \<Rightarrow> request" where
  "authn_request env domain username password =
     json_request env (JStr (''https://'' @ domain @ ''/api/v1/authn''))
       [(''username'', JStr username), (''password'', JStr password)]"

definition okta_auth ::
  "nat \<Rightarrow> environment \<Rightarrow> string \<Rightarrow> string \<Rightarrow> string \<Rightarrow> string option \<Rightarrow> session
     \<Rightarrow> json result \<times> session" where
  "okta_auth fuel env domain username password totp_key s =
     sbind (post_json env (JStr (''https://'' @ domain @ ''/api/v1/authn''))
              [(''username'', JStr username), (''password'', JStr password)] s) (\<lambda>r s.
     sbind (getitem r ''status'', s) (\<lambda>status s.
     sbind (if status = JStr ''MFA_REQUIRED'' then mfa_required fuel env totp_key r s
            else (Return r, s)) (\<lambda>r s.
     sbind (getitem r ''status'', s) (\<lambda>status s.
     if status \<noteq> JStr ''SUCCESS'' then (Raise AssertionError, s)
     else (getitem r ''sessionToken'', s)))))"

section \<open>okta_saml and complete_saml\<close>

definition okta_saml ::
  "nat \<Rightarrow> environment \<Rightarrow> string \<Rightarrow> string \<Rightarrow> string \<Rightarrow> string option \<Rightarrow> session
     \<Rightarrow> (string \<times> (string \<times> string) list) result \<times> session" where
  "okta_saml fuel env saml_req_url username password totp_key s =
     (let domain = netloc env saml_req_url;
          (resp, s) = send env (Request GET (JStr saml_req_url) NoBody) s in
      sbind (check resp, s) (\<lambda>_ s.
      sbind (okta_auth fuel env domain username password totp_key s) (\<lambda>token s.
        let (resp, s) =
              send env
                (Request GET (JStr (''https://'' @ domain @ ''/login/sessionCookieRedirect''))
                   (Params [(''token'', token), (''redirectUrl'', JStr saml_req_url)])) s in
        sbind (check resp, s) (\<lambda>r s.
        sbind (extract_form (parse_html env) (content r), s)
          (\<lambda>(saml_resp_url, saml_resp_data) s.
        if ''SAMLResponse'' \<notin> set (map fst saml_resp_data) then (Raise AssertionError, s)
        else (Return (saml_resp_url, saml_resp_data), s))))))"

text \<open>
  \<^verbatim>\<open>r.headers[name]\<close>.  The headers of \<^verbatim>\<open>requests\<close> are a dictionary that compares names
  without regard to case (header names are ASCII); \<^verbatim>\<open>KeyError\<close> when the response has no
  such header.
\<close>

definition lower_char :: "char \<Rightarrow> char" where
  "lower_char c =
     (case map_of (zip ''ABCDEFGHIJKLMNOPQRSTUVWXYZ'' ''abcdefghijklmnopqrstuvwxyz'') c of
        None \<Rightarrow> c
      | Some l \<Rightarrow> l)"

definition lower :: "string \<Rightarrow> string" where
  "lower s = map lower_char s"

definition header :: "response \<Rightarrow> string \<Rightarrow> string result" where
  "header r name =
     (case List.find (\<lambda>kv. lower (fst kv) = lower name) (headers r) of
        None \<Rightarrow> Raise KeyError
      | Some kv \<Rightarrow> Return (snd kv))"

definition complete_saml ::
  "environment \<Rightarrow> string \<Rightarrow> (string \<times> string) list \<Rightarrow> session \<Rightarrow> (string \<times> string) result \<times> session"
  where
  "complete_saml env saml_resp_url saml_resp_data s =
     (let (resp, s) = send env (Request POST (JStr saml_resp_url) (FormData saml_resp_data)) s in
      sbind (check resp, s) (\<lambda>r s.
      sbind (header r ''saml-username'', s) (\<lambda>saml_username s.
      sbind (header r ''prelogin-cookie'', s) (\<lambda>prelogin_cookie s.
      (Return (saml_username, prelogin_cookie), s)))))"

section \<open>Signals and the child process\<close>

text \<open>
  The parent process as the module sees it through \<^verbatim>\<open>signal\<close>, \<^verbatim>\<open>subprocess\<close> and \<^verbatim>\<open>os\<close>: its
  signal mask, whether a \<^verbatim>\<open>SIGTERM\<close> is pending, the handler of each signal, whether the
  child's standard input is open, and the trace of what happened so far.  \<open>incoming\<close> is
  the schedule of the outside world: \<open>incoming st n\<close> says that a \<^verbatim>\<open>SIGTERM\<close> arrives right
  after the \<open>n\<close>-th operation of the process; \<open>clock\<close> counts the operations.  A process
  that a signal has killed (\<open>alive\<close> is false) does nothing any more.
\<close>

definition SIGTERM :: nat where
  "SIGTERM = 15"

datatype handler = SIG_DFL | SIG_IGN | Terminate_child | Other_handler nat

datatype how = SIG_BLOCK | SIG_UNBLOCK | SIG_SETMASK

datatype event =
    Pthread_sigmask how "nat set"
  | Popen "string list" bool "nat set"
  | Popen_failed "string list"
  | Signal nat handler
  | Stdin_write string
  | Stdin_close
  | Waitid
  | Wait
  | Arrives nat
  | Delivered nat handler

record process =
  alive :: bool
  sigmask :: "nat set"
  pending :: bool
  handlers :: "nat \<Rightarrow> handler"
  stdin_open :: bool
  trace :: "event list"
  incoming :: "nat \<Rightarrow> bool"
  clock :: nat

text \<open>
  Delivery of \<^verbatim>\<open>SIGTERM\<close> to the parent: its current handler runs.  The default action
  terminates the parent; \<open>Terminate_child\<close> is the handler \<^verbatim>\<open>lambda *args: p.terminate()\<close>.
\<close>

definition deliver :: "process \<Rightarrow> process" where
  "deliver st =
     st\<lparr>pending := False,
        trace := trace st @ [Delivered SIGTERM (handlers st SIGTERM)],
        alive := (handlers st SIGTERM \<noteq> SIG_DFL)\<rparr>"

text \<open>A pending signal is delivered as soon as it is not blocked.\<close>

definition flush :: "process \<Rightarrow> process" where
  "flush st = (if pending st \<and> SIGTERM \<notin> sigmask st then deliver st else st)"

text \<open>The end of an operation: the clock advances, and a signal of the schedule arrives.\<close>

definition tick :: "process \<Rightarrow> process" where
  "tick st =
     (if \<not> alive st then st
      else if incoming st (clock st)
      then flush (st\<lparr>clock := Suc (clock st), pending := True,
                     trace := trace st @ [Arrives SIGTERM]\<rparr>)
      else st\<lparr>clock := Suc (clock st)\<rparr>)"

text \<open>\<^verbatim>\<open>signal.pthread_sigmask(how, mask)\<close>: returns the old mask.\<close>

definition pthread_sigmask :: "how \<Rightarrow> nat set \<Rightarrow> process \<Rightarrow> nat set \<times> process" where
  "pthread_sigmask h sigs st =
     (if \<not> alive st then (sigmask st, st)
      else
        (sigmask st,
         tick (flush (st\<lparr>sigmask := (case h of
                                        SIG_BLOCK \<Rightarrow> sigmask st \<union> sigs
                                      | SIG_UNBLOCK \<Rightarrow> sigmask st - sigs
                                      | SIG_SETMASK \<Rightarrow> sigs),
                          trace := trace st @ [Pthread_sigmask h sigs]\<rparr>))))"

text \<open>\<^verbatim>\<open>signal.signal(num, handler)\<close>: returns the old handler.\<close>

definition signal_signal :: "nat \<Rightarrow> handler \<Rightarrow> process \<Rightarrow> handler \<times> process" where
  "signal_signal num h st =
     (if \<not> alive st then (handlers st num, st)
      else
        (handlers st num,
         tick (st\<lparr>handlers := (handlers st)(num := h),
                   trace := trace st @ [Signal num h]\<rparr>)))"

text \<open>
  \<^verbatim>\<open>subprocess.Popen(args, stdin=stdin, preexec_fn=f)\<close>.  The child starts with the
  parent's signal mask and runs \<open>preexec_fn\<close> on it before it executes the program; the
  event records the arguments, whether the child has a pipe as standard input, and the
  mask the child executes the program with.
\<close>

definition popen ::
  "environment \<Rightarrow> string list \<Rightarrow> bool \<Rightarrow> (nat set \<Rightarrow> nat set) \<Rightarrow> process \<Rightarrow> unit result \<times> process"
  where
  "popen env args stdin_pipe preexec_fn st =
     (if \<not> alive st then (Return (), st)
      else
        (case popen_error env of
           Some e \<Rightarrow> (Raise e, tick (st\<lparr>trace := trace st @ [Popen_failed args]\<rparr>))
         | None \<Rightarrow>
             (Return (),
              tick (st\<lparr>stdin_open := stdin_pipe,
                        trace := trace st @ [Popen args stdin_pipe (preexec_fn (sigmask st))]\<rparr>))))"

text \<open>An operation on the child that leaves one event in the trace.\<close>

definition child_op :: "event \<Rightarrow> process \<Rightarrow> process" where
  "child_op e st = (if \<not> alive st then st else tick (st\<lparr>trace := trace st @ [e]\<rparr>))"

text \<open>\<^verbatim>\<open>p.stdin.close()\<close>: closing a closed stream does nothing.\<close>

definition stdin_close :: "process \<Rightarrow> process" where
  "stdin_close st =
     (if \<not> alive st \<or> \<not> stdin_open st then st
      else tick (st\<lparr>stdin_open := False, trace := trace st @ [Stdin_close]\<rparr>))"

text \<open>\<^verbatim>\<open>p.stdin.write(data)\<close>: \<^verbatim>\<open>p.stdin\<close> is \<^verbatim>\<open>None\<close> when the child has no pipe.\<close>

definition stdin_write :: "bool \<Rightarrow> string \<Rightarrow> process \<Rightarrow> unit result \<times> process" where
  "stdin_write stdin_pipe data st =
     (if \<not> stdin_pipe then (Raise AttributeError, st)
      else (Return (), child_op (Stdin_write data) st))"

text \<open>\<^verbatim>\<open>Popen.__exit__\<close>: close the standard input if there is one, then wait for the child.\<close>

definition popen_exit :: "bool \<Rightarrow> process \<Rightarrow> process" where
  "popen_exit stdin_pipe st =
     child_op Wait (if stdin_pipe then stdin_close st else st)"

section \<open>The context managers\<close>

text \<open>
  A function under \<^verbatim>\<open>@contextlib.contextmanager\<close> runs up to its \<^verbatim>\<open>yield\<close> when the \<^verbatim>\<open>with\<close>
  statement is entered and from its \<^verbatim>\<open>yield\<close> on when the block is left; each is modelled
  by the two halves.
\<close>

definition signal_mask_enter :: "how \<Rightarrow> nat set \<Rightarrow> process \<Rightarrow> nat set \<times> process" where
  "signal_mask_enter h sigs st = pthread_sigmask h sigs st"

definition signal_mask_exit :: "nat set \<Rightarrow> process \<Rightarrow> process" where
  "signal_mask_exit old_mask st = snd (pthread_sigmask SIG_SETMASK old_mask st)"

definition signal_handler_enter :: "nat \<Rightarrow> handler \<Rightarrow> process \<Rightarrow> handler \<times> process" where
  "signal_handler_enter num h st = signal_signal num h st"

definition signal_handler_exit :: "nat \<Rightarrow> handler \<Rightarrow> process \<Rightarrow> process" where
  "signal_handler_exit num old_handler st = snd (signal_signal num old_handler st)"

text \<open>What \<^verbatim>\<open>popen_forward_sigterm\<close> holds at its \<^verbatim>\<open>yield\<close>.\<close>

record supervised =
  old_mask :: "nat set"
  old_handler :: handler
  blocked_mask :: "nat set"
  stdin_pipe :: bool

text \<open>
  \<^verbatim>\<open>popen_forward_sigterm(args, stdin=stdin)\<close> up to \<^verbatim>\<open>yield p\<close>: block \<^verbatim>\<open>SIGTERM\<close>, start the
  child (which resets its mask to the old one), install the forwarding handler, set the
  old mask again.  When \<^verbatim>\<open>Popen\<close> raises, the outer \<^verbatim>\<open>signal_mask\<close> restores the mask on the
  way out.
\<close>

definition popen_forward_sigterm_enter ::
  "environment \<Rightarrow> string list \<Rightarrow> bool \<Rightarrow> process \<Rightarrow> supervised result \<times> process" where
  "popen_forward_sigterm_enter env args stdin st =
     (let (old, st) = signal_mask_enter SIG_BLOCK {SIGTERM} st in
      case popen env args stdin (\<lambda>_. old) st of
        (Return p, st) \<Rightarrow>
          (let (oldh, st) = signal_handler_enter SIGTERM Terminate_child st;
               (blocked, st) = signal_mask_enter SIG_SETMASK old st
           in (Return \<lparr>old_mask = old, old_handler = oldh, blocked_mask = blocked,
                        stdin_pipe = stdin\<rparr>, st))
      | (Raise e, st) \<Rightarrow> (Raise e, signal_mask_exit old st)
      | (OutOfFuel, st) \<Rightarrow> (OutOfFuel, st))"

text \<open>
  \<^verbatim>\<open>popen_forward_sigterm\<close> from \<^verbatim>\<open>yield p\<close> on.  When the block ended normally the standard
  input is closed and \<^verbatim>\<open>os.waitid\<close> waits for the child; an exception of the block skips
  both.  Then the \<^verbatim>\<open>with\<close> statements are left from the inside out.
\<close>

definition popen_forward_sigterm_exit :: "supervised \<Rightarrow> bool \<Rightarrow> process \<Rightarrow> process" where
  "popen_forward_sigterm_exit c raised st =
     (let st = (if raised then st
                else child_op Waitid (if stdin_pipe c then stdin_close st else st));
          st = signal_mask_exit (blocked_mask c) st;
          st = signal_handler_exit SIGTERM (old_handler c) st;
          st = popen_exit (stdin_pipe c) st
      in signal_mask_exit (old_mask c) st)"

section \<open>main\<close>

datatype outcome = SysExit int | Uncaught error | Killed | NoReturn

text \<open>\<^verbatim>\<open>str.encode()\<close>: a text is represented by its UTF-8 bytes.\<close>

definition encode :: "string \<Rightarrow> string" where
  "encode s = s"

definition subprocess_args :: "string \<Rightarrow> string \<Rightarrow> bool \<Rightarrow> string list" where
  "subprocess_args gateway saml_username sudo =
     (let args = [''openconnect'', gateway, ''--protocol=gp'', ''--user='' @ saml_username,
                  ''--usergroup=gateway:prelogin-cookie'', ''--passwd-on-stdin'']
      in if sudo then ''sudo'' # args else args)"

text \<open>
  The last two statements of \<^verbatim>\<open>main\<close>: the child runs under \<^verbatim>\<open>popen_forward_sigterm\<close> with
  a pipe as standard input, the block writes the encoded cookie, and the process exits
  with \<^verbatim>\<open>p.returncode\<close>.
\<close>

definition run_openconnect ::
  "environment \<Rightarrow> string list \<Rightarrow> string \<Rightarrow> process \<Rightarrow> outcome \<times> process" where
  "run_openconnect env args prelogin_cookie st =
     (case popen_forward_sigterm_enter env args True st of
        (Return c, st) \<Rightarrow>
          (let (w, st) = stdin_write (stdin_pipe c) (encode prelogin_cookie) st;
               st = popen_forward_sigterm_exit c (w \<noteq> Return ()) st
           in (if \<not> alive st then Killed
               else (case w of
                       Return _ \<Rightarrow> SysExit (child_returncode env)
                     | Raise e \<Rightarrow> Uncaught e
                     | OutOfFuel \<Rightarrow> NoReturn),
               st))
      | (Raise e, st) \<Rightarrow> (if \<not> alive st then Killed else Uncaught e, st)
      | (OutOfFuel, st) \<Rightarrow> (NoReturn, st))"

text \<open>
  The three HTTP stages of \<^verbatim>\<open>main\<close>, inside \<^verbatim>\<open>with requests.Session() as s\<close>: the session
  starts with an empty history.
\<close>

definition login ::
  "nat \<Rightarrow> environment \<Rightarrow> string \<Rightarrow> string \<Rightarrow> string \<Rightarrow> string option
     \<Rightarrow> (string \<times> string) result \<times> session" where
  "login fuel env gateway username password totp_key =
     sbind (prelogin env gateway []) (\<lambda>saml_req_url s.
     sbind (okta_saml fuel env saml_req_url username password totp_key s)
       (\<lambda>(saml_resp_url, saml_resp_data) s.
     complete_saml env saml_resp_url saml_resp_data s))"

text \<open>
  The user name and the password \<^verbatim>\<open>main\<close> works with: an argument that is \<^verbatim>\<open>None\<close> is asked
  for (the password first from the keyring, then from the terminal).
\<close>

definition resolve_username :: "environment \<Rightarrow> string option \<Rightarrow> string" where
  "resolve_username env username =
     (case username of None \<Rightarrow> input env ''Username: '' | Some u \<Rightarrow> u)"

definition resolve_password :: "environment \<Rightarrow> string \<Rightarrow> string \<Rightarrow> string option \<Rightarrow> string" where
  "resolve_password env gateway username password =
     (case password of
        None \<Rightarrow>
          (case keyring_get_password env gateway username of
             None \<Rightarrow> getpass env
           | Some pw \<Rightarrow> pw)
      | Some pw \<Rightarrow> pw)"

text \<open>
  \<^verbatim>\<open>main(gateway, username, password, totp_key=..., sudo=...)\<close>, started in the process
  state \<open>st\<close>.  It gives the way the program ends, the requests it sent and the process
  state at the end.  A TOTP key without \<^verbatim>\<open>pyotp\<close> ends the program with status 1 before
  anything else happens.
\<close>

definition main ::
  "nat \<Rightarrow> environment \<Rightarrow> string \<Rightarrow> string option \<Rightarrow> string option \<Rightarrow> string option \<Rightarrow> bool
     \<Rightarrow> process \<Rightarrow> outcome \<times> session \<times> process" where
  "main fuel env gateway username password totp_key sudo st =
     (if totp_key \<noteq> None \<and> \<not> pyotp_present env then (SysExit 1, [], st)
      else
        (let username = resolve_username env username;
             password = resolve_password env gateway username password
         in case login fuel env gateway username password totp_key of
              (Return (saml_username, prelogin_cookie), s) \<Rightarrow>
                (let (out, st) =
                       run_openconnect env (subprocess_args gateway saml_username sudo)
                         prelogin_cookie st
                 in (out, s, st))
            | (Raise e, s) \<Rightarrow> (Uncaught e, s, st)
            | (OutOfFuel, s) \<Rightarrow> (NoReturn, s, st)))"

section \<open>Example inputs\<close>

text \<open>A login page whose form has three inputs as children, the name \<open>a\<close> twice.\<close>

definition form_twice :: element where
  "form_twice =
     Element ''form'' [(''action'', ''https://idp/sso'')] None
       [Element ''input'' [(''name'', ''a''), (''value'', ''1'')] None [],
        Element ''input'' [(''name'', ''b''), (''value'', ''2'')] None [],
        Element ''input'' [(''name'', ''a''), (''value'', ''3'')] None []]"

definition page_twice :: element where
  "page_twice = Element ''html'' [] None [Element ''body'' [] None [form_twice]]"

text \<open>A page whose form holds its only input inside a \<^verbatim>\<open>div\<close>.\<close>

definition nested_input :: element where
  "nested_input = Element ''input'' [(''name'', ''SAMLRequest''), (''value'', ''abc'')] None []"

definition form_nested :: element where
  "form_nested =
     Element ''form'' [(''action'', ''https://idp/sso'')] None
       [Element ''div'' [] None [nested_input]]"

definition page_nested :: element where
  "page_nested = Element ''html'' [] None [Element ''body'' [] None [form_nested]]"

text \<open>A page whose form has a submit button: an input with neither name nor value.\<close>

definition form_submit :: element where
  "form_submit =
     Element ''form'' [(''action'', ''https://idp/sso'')] None
       [Element ''input'' [(''name'', ''SAMLRequest''), (''value'', ''abc'')] None [],
        Element ''input'' [(''type'', ''submit'')] None []]"

definition page_submit :: element where
  "page_submit = Element ''html'' [] None [Element ''body'' [] None [form_submit]]"

section \<open>Notions used to state the properties\<close>

text \<open>
  The environment answers the history \<open>hist\<close> with a response that passes
  \<^verbatim>\<open>raise_for_status\<close> and whose body decodes to the JSON value \<open>j\<close>.
\<close>

definition answers :: "environment \<Rightarrow> session \<Rightarrow> json \<Rightarrow> bool" where
  "answers env hist j \<longleftrightarrow>
     \<not> (400 \<le> status_code (http env hist) \<and> status_code (http env hist) < 600)
     \<and> json_body (http env hist) = Some j"

text \<open>
  The environment answers the requests \<open>reqs\<close>, sent one after the other through a session
  with the history \<open>s\<close>, with the JSON values \<open>js\<close>.
\<close>

fun scripted :: "environment \<Rightarrow> session \<Rightarrow> request list \<Rightarrow> json list \<Rightarrow> bool" where
  "scripted env s [] [] \<longleftrightarrow> True"
| "scripted env s (q # qs) (j # js) \<longleftrightarrow> answers env (s @ [q]) j \<and> scripted env (s @ [q]) qs js"
| "scripted env s _ _ \<longleftrightarrow> False"

text \<open>
  The factor types the loop has a branch for: \<^verbatim>\<open>push\<close>, \<^verbatim>\<open>sms\<close> and the types that match
  the token pattern.
\<close>

definition supported :: "string \<Rightarrow> bool" where
  "supported ty \<longleftrightarrow> ty = ''push'' \<or> ty = ''sms'' \<or> token_match ty"

text \<open>
  The rank of a factor type as the specification words it: software TOTP is first when a
  seed was supplied, push is in the middle, everything else (software TOTP without a seed
  too) is last.
\<close>

definition rank :: "string option \<Rightarrow> string \<Rightarrow> nat" where
  "rank totp_key ty =
     (if ty = ''token:software:totp'' \<and> totp_key \<noteq> None then 0
      else if ty = ''push'' then 1
      else 2)"

text \<open>
  Position \<open>i\<close> of the factor types \<open>types\<close> is the chosen one: its type is supported, no
  supported type of the list has a smaller rank, and every supported type before it has
  a larger rank.
\<close>

definition chosen :: "string option \<Rightarrow> string list \<Rightarrow> nat \<Rightarrow> bool" where
  "chosen totp_key types i \<longleftrightarrow>
     i < length types \<and> supported (types ! i)
     \<and> (\<forall>j < length types. supported (types ! j) \<longrightarrow>
           rank totp_key (types ! i) \<le> rank totp_key (types ! j))
     \<and> (\<forall>j < i. supported (types ! j) \<longrightarrow> rank totp_key (types ! i) < rank totp_key (types ! j))"

text \<open>The continuation of one factor, keyed by its type.\<close>

definition run_factor ::
  "nat \<Rightarrow> environment \<Rightarrow> string option \<Rightarrow> json \<Rightarrow> string \<Rightarrow> json \<Rightarrow> session
     \<Rightarrow> json result \<times> session" where
  "run_factor fuel env totp_key factor ty r s =
     (if ty = ''push'' then push_factor fuel env factor r s
      else if ty = ''sms'' then sms_factor env factor r s
      else token_factor env totp_key factor r s)"

section \<open>Example servers\<close>

text \<open>
  An environment whose \<open>n\<close>-th response is the \<open>n\<close>-th of a list (status 500 after the end
  of the list), with parsers and a decoder that reject every document.
\<close>

definition no_response :: response where
  "no_response = \<lparr>status_code = 500, content = [], headers = [], json_body = None\<rparr>"

definition json_response :: "json \<Rightarrow> response" where
  "json_response j = \<lparr>status_code = 200, content = [], headers = [], json_body = Some j\<rparr>"

definition canned :: "response list \<Rightarrow> environment" where
  "canned rs =
     \<lparr>http = (\<lambda>hist. if 0 < length hist \<and> length hist \<le> length rs then rs ! (length hist - 1)
                     else no_response),
      parse_xml = (\<lambda>_. Raise (LibraryError ''XMLSyntaxError'')),
      parse_html = (\<lambda>_. Raise (LibraryError ''XMLSyntaxError'')),
      b64decode = (\<lambda>_. Raise (LibraryError ''binascii.Error'')),
      urlencode = (\<lambda>_. []),
      netloc = (\<lambda>_. ''idp.example''),
      getnode = ''42'',
      totp_now = (\<lambda>_. Return ''123456''),
      input = (\<lambda>_. ''654321''),
      repr = (\<lambda>_. []),
      pyotp_present = True,
      keyring_get_password = (\<lambda>_ _. None),
      getpass = ''secret'',
      popen_error = None,
      child_returncode = 0\<rparr>"

definition factor_json :: "string \<Rightarrow> string \<Rightarrow> json" where
  "factor_json ty href =
     JObj [(''factorType'', JStr ty), (''provider'', JStr ''OKTA''),
           (''vendorName'', JStr ''OKTA''),
           (''_links'', JObj [(''verify'', JObj [(''href'', JStr href)])])]"

definition totp_f :: json where
  "totp_f = factor_json ''token:software:totp'' ''https://idp.example/totp''"

definition push_f :: json where
  "push_f = factor_json ''push'' ''https://idp.example/push''"

definition sms_f :: json where
  "sms_f = factor_json ''sms'' ''https://idp.example/sms''"

definition question_f :: json where
  "question_f = factor_json ''question'' ''https://idp.example/question''"

definition mfa_response :: "json list \<Rightarrow> json" where
  "mfa_response fs =
     JObj [(''status'', JStr ''MFA_REQUIRED''), (''stateToken'', JStr ''st0''),
           (''_embedded'', JObj [(''factors'', JArr fs)])]"

definition waiting_response :: "string \<Rightarrow> json" where
  "waiting_response tok =
     JObj [(''status'', JStr ''MFA_CHALLENGE''), (''factorResult'', JStr ''WAITING''),
           (''stateToken'', JStr tok)]"

definition challenge_response :: json where
  "challenge_response = JObj [(''status'', JStr ''MFA_CHALLENGE''), (''stateToken'', JStr ''st1'')]"

definition success_response :: json where
  "success_response = JObj [(''status'', JStr ''SUCCESS''), (''sessionToken'', JStr ''T'')]"

text \<open>The factor type of a factor whose \<^verbatim>\<open>factorType\<close> is a string.\<close>

definition ftype :: "json \<Rightarrow> string" where
  "ftype factor = (case getitem factor ''factorType'' of Return (JStr ty) \<Rightarrow> ty | _ \<Rightarrow> [])"

text \<open>A request whose JSON body is a dictionary without the key \<^verbatim>\<open>rememberDevice\<close>.\<close>

definition no_remember_device :: "request \<Rightarrow> bool" where
  "no_remember_device q \<longleftrightarrow>
     (case req_payload q of
        JsonBody (JObj d) \<Rightarrow> map_of d ''rememberDevice'' = None
      | _ \<Rightarrow> False)"

definition rejected_response :: json where
  "rejected_response =
     JObj [(''status'', JStr ''MFA_CHALLENGE''), (''factorResult'', JStr ''REJECTED''),
           (''stateToken'', JStr ''st1'')]"

text \<open>The server of the push example: two polls find the factor waiting, the third succeeds.\<close>

definition push_server :: environment where
  "push_server =
     canned (map json_response
       [mfa_response [sms_f, push_f], waiting_response ''st1'', waiting_response ''st2'',
        success_response])"

text \<open>A server whose first answer to a poll is a rejection.\<close>

definition reject_server :: environment where
  "reject_server = canned (map json_response [mfa_response [sms_f, push_f], rejected_response])"

text \<open>
  The operations of the process in a trace: everything but the arrival and the delivery
  of signals, which the outside world decides.
\<close>

fun is_operation :: "event \<Rightarrow> bool" where
  "is_operation (Arrives _) = False"
| "is_operation (Delivered _ _) = False"
| "is_operation _ = True"

definition operations :: "event list \<Rightarrow> event list" where
  "operations tr = filter is_operation tr"

text \<open>The arrival of a signal in a trace, if one arrives.\<close>

definition arrival :: "bool \<Rightarrow> event list" where
  "arrival a = (if a then [Arrives SIGTERM] else [])"

text \<open>The delivery of a signal to the forwarding handler in a trace, if one is delivered.\<close>

definition forwarded :: "bool \<Rightarrow> event list" where
  "forwarded d = (if d then [Delivered SIGTERM Terminate_child] else [])"

section \<open>The round trip of the specification\<close>

text \<open>
  The gateway answers the prelogin with a document whose \<^verbatim>\<open>saml-request\<close> element decodes
  to a page with the field \<^verbatim>\<open>SAMLRequest=abc\<close>; the primary authentication succeeds with
  the token \<^verbatim>\<open>T\<close>; the redirect gives a page with the field \<^verbatim>\<open>SAMLResponse=xyz\<close>; the
  completion carries the headers \<^verbatim>\<open>saml-username: alice\<close> and
  \<^verbatim>\<open>prelogin-cookie: cookie123\<close>.  The libraries know these documents only (each with
  the tree or the bytes the real library gives for it), and the stand-in for
  \<^verbatim>\<open>urlencode\<close> joins names and values without escaping.
\<close>

definition request_html :: string where
  "request_html =
     ''<form action=https://idp.example/sso><input name=SAMLRequest value=abc></form>''"

definition request_b64 :: string where
  "request_b64 =
     ''PGZvcm0gYWN0aW9uPWh0dHBzOi8vaWRwLmV4YW1wbGUvc3NvPjxpbnB1dCBuYW1lPVNBTUxSZXF1ZXN0IHZhbHVlPWFiYz48L2Zvcm0+''"

definition prelogin_xml :: string where
  "prelogin_xml =
     ''<prelogin-response><status>Success</status><saml-request>'' @ request_b64
       @ ''</saml-request></prelogin-response>''"

definition response_html :: string where
  "response_html =
     ''<form action=https://vpn.example/acs><input name=SAMLResponse value=xyz></form>''"

definition prelogin_doc :: element where
  "prelogin_doc =
     Element ''prelogin-response'' [] None
       [Element ''status'' [] (Some ''Success'') [],
        Element ''saml-request'' [] (Some request_b64) []]"

definition request_page :: element where
  "request_page =
     Element ''html'' [] None [Element ''body'' [] None
       [Element ''form'' [(''action'', ''https://idp.example/sso'')] None
          [Element ''input'' [(''name'', ''SAMLRequest''), (''value'', ''abc'')] None []]]]"

definition response_page :: element where
  "response_page =
     Element ''html'' [] None [Element ''body'' [] None
       [Element ''form'' [(''action'', ''https://vpn.example/acs'')] None
          [Element ''input'' [(''name'', ''SAMLResponse''), (''value'', ''xyz'')] None []]]]"

definition page_response :: "string \<Rightarrow> response" where
  "page_response c = \<lparr>status_code = 200, content = c, headers = [], json_body = None\<rparr>"

definition completion_response :: "(string \<times> string) list \<Rightarrow> response" where
  "completion_response hs =
     \<lparr>status_code = 200, content = [], headers = hs, json_body = None\<rparr>"

fun join_fields :: "(string \<times> string) list \<Rightarrow> string" where
  "join_fields [] = []"
| "join_fields [kv] = fst kv @ ''='' @ snd kv"
| "join_fields (kv # d) = fst kv @ ''='' @ snd kv @ ''&'' @ join_fields d"

definition round_trip :: "response \<Rightarrow> environment" where
  "round_trip completion =
     (canned [page_response prelogin_xml, page_response [],
              json_response success_response, page_response response_html, completion])
     \<lparr>parse_xml := (\<lambda>c. if c = prelogin_xml then Return prelogin_doc
                          else Raise (LibraryError ''XMLSyntaxError'')),
      parse_html := (\<lambda>c. if c = request_html then Return request_page
                           else if c = response_html then Return response_page
                           else Raise (LibraryError ''XMLSyntaxError'')),
      b64decode := (\<lambda>c. if c = request_b64 then Return request_html
                          else Raise (LibraryError ''binascii.Error'')),
      urlencode := join_fields,
      child_returncode := 7\<rparr>"

definition good_completion :: response where
  "good_completion =
     completion_response [(''Saml-Username'', ''alice''), (''Prelogin-Cookie'', ''cookie123'')]"

definition bad_completion :: response where
  "bad_completion = completion_response [(''Saml-Username'', ''alice'')]"

text \<open>
  A process with no signal blocked or pending, the default handlers and an empty trace;
  \<open>sched\<close> is the schedule of the signals that will arrive.
\<close>

definition fresh_process :: "(nat \<Rightarrow> bool) \<Rightarrow> process" where
  "fresh_process sched =
     \<lparr>alive = True, sigmask = {}, pending = False, handlers = (\<lambda>_. SIG_DFL),
      stdin_open = False, trace = [], incoming = sched, clock = 0\<rparr>"

text \<open>
  The requests of the factor branches, written out.  A poll of the push factor posts to
  the verify address the JSON dictionary with the state token \<open>t\<close>, with \<^verbatim>\<open>rememberDevice\<close>
  set to true and with the device token; the first request of the sms and the token
  branch posts the state token and the device token only.
\<close>

definition poll_request :: "environment \<Rightarrow> json \<Rightarrow> json \<Rightarrow> request" where
  "poll_request env href t =
     Request POST href
       (JsonBody (JObj [(''stateToken'', t), (''rememberDevice'', JBool True),
                        (''context'', JObj [(''deviceToken'', JStr (getnode env))])]))"

definition state_request :: "environment \<Rightarrow> json \<Rightarrow> json \<Rightarrow> request" where
  "state_request env href t =
     Request POST href
       (JsonBody (JObj [(''stateToken'', t),
                        (''context'', JObj [(''deviceToken'', JStr (getnode env))])]))"

text \<open>The server of the sms example: the challenge, then success.\<close>

definition sms_server :: environment where
  "sms_server =
     canned (map json_response [mfa_response [sms_f], challenge_response, success_response])"

text \<open>A gateway whose prelogin response has no \<^verbatim>\<open>saml-request\<close> element.\<close>

definition error_xml :: string where
  "error_xml = ''<prelogin-response><status>Error</status></prelogin-response>''"

definition error_doc :: element where
  "error_doc = Element ''prelogin-response'' [] None [Element ''status'' [] (Some ''Error'') []]"

definition failed_gateway :: environment where
  "failed_gateway =
     (canned [page_response error_xml])
     \<lparr>parse_xml := (\<lambda>c. if c = error_xml then Return error_doc
                          else Raise (LibraryError ''XMLSyntaxError''))\<rparr>"

text \<open>
  The requests of the round trip for the user \<^verbatim>\<open>alice@x\<close> with the password \<^verbatim>\<open>pw\<close>: the
  four before the completion, and the completion.
\<close>

definition trip_requests :: "request list" where
  "trip_requests =
     [Request POST (JStr ''https://vpn.example/ssl-vpn/prelogin.esp'') NoBody,
      Request GET (JStr ''https://idp.example/sso?SAMLRequest=abc'') NoBody,
      Request POST (JStr ''https://idp.example/api/v1/authn'')
        (JsonBody (JObj [(''username'', JStr ''alice@x''), (''password'', JStr ''pw''),
                         (''context'', JObj [(''deviceToken'', JStr ''42'')])])),
      Request GET (JStr ''https://idp.example/login/sessionCookieRedirect'')
        (Params [(''token'', JStr ''T''),
                 (''redirectUrl'', JStr ''https://idp.example/sso?SAMLRequest=abc'')])]"

definition completion_request :: request where
  "completion_request =
     Request POST (JStr ''https://vpn.example/acs'') (FormData [(''SAMLResponse'', ''xyz'')])"

section \<open>Dictionaries\<close>

lemma map_of_dict_set: "map_of (dict_set d k v) = (map_of d)(k \<mapsto> v)"
  by (induction d k v rule: dict_set.induct) (auto simp: fun_eq_iff)

lemma keys_dict_set: "fst ` set (dict_set d k v) = insert k (fst ` set d)"
  by (induction d k v rule: dict_set.induct) auto

lemma distinct_dict_set: "distinct (map fst d) \<Longrightarrow> distinct (map fst (dict_set d k v))"
  by (induction d k v rule: dict_set.induct) (auto simp: keys_dict_set)

lemma map_of_foldl_dict_set:
  "map_of (foldl (\<lambda>d (n, v). dict_set d n v) d pairs) = map_of (rev pairs @ d)"
  by (induction pairs arbitrary: d)
    (auto simp: map_of_dict_set fun_eq_iff map_add_def split: option.splits)

lemma distinct_foldl_dict_set:
  "distinct (map fst d) \<Longrightarrow> distinct (map fst (foldl (\<lambda>d (n, v). dict_set d n v) d pairs))"
  by (induction pairs arbitrary: d) (auto simp: distinct_dict_set)

section \<open>The form extractor\<close>

lemma input_fields_ok:
  "map (\<lambda>inp. (map_of (attrib inp) ''name'', map_of (attrib inp) ''value'')) inputs
     = map (\<lambda>(n, v). (Some n, Some v)) pairs \<Longrightarrow>
   input_fields inputs d = Return (foldl (\<lambda>d (n, v). dict_set d n v) d pairs)"
proof (induction inputs arbitrary: d pairs)
  case Nil
  then show ?case by simp
next
  case (Cons inp rest)
  then obtain n v ps where "pairs = (n, v) # ps"
    by (cases pairs) auto
  with Cons show ?case
    by (simp add: rbind_def dict_get_def)
qed

lemma input_fields_missing:
  "\<exists>inp \<in> set inputs. map_of (attrib inp) ''name'' = None \<or> map_of (attrib inp) ''value'' = None
     \<Longrightarrow> input_fields inputs d = Raise KeyError"
  by (induction inputs arbitrary: d) (auto simp: rbind_def dict_get_def split: option.splits)

text \<open>
  Claim C3, as the code has it.  When the parsed document has a form, its first form has an
  \<^verbatim>\<open>action\<close> attribute, and the \<^verbatim>\<open>input\<close> elements that are children of that form carry the
  names and values \<open>pairs\<close> (in document order), \<open>extract_form\<close> returns the action with a
  dictionary of distinct keys that maps every name to the value of the last input of that
  name: looking a name up in it is looking it up in the pairs read from the last to the
  first.  Only the children of the form are read, not the inputs nested deeper.
\<close>

theorem extract_form_fields:
  assumes "parser html = Return root"
    and "find_descendant ''form'' root = Some form"
    and "map_of (attrib form) ''action'' = Some action"
    and "map (\<lambda>inp. (map_of (attrib inp) ''name'', map_of (attrib inp) ''value''))
           (findall ''input'' form) = map (\<lambda>(n, v). (Some n, Some v)) pairs"
  shows "\<exists>fields. extract_form parser html = Return (action, fields)
           \<and> distinct (map fst fields)
           \<and> map_of fields = map_of (rev pairs)"
  using assms input_fields_ok[OF assms(4), of "[]"]
  by (simp add: extract_form_def rbind_def dict_get_def map_of_foldl_dict_set
      distinct_foldl_dict_set)

theorem extract_form_fields_witness:
  "\<exists>fields. extract_form (\<lambda>_. Return page_twice) ''<html>'' = Return (''https://idp/sso'', fields)
     \<and> distinct (map fst fields)
     \<and> map_of fields = map_of (rev [(''a'', ''1''), (''b'', ''2''), (''a'', ''3'')])"
  by (rule extract_form_fields[where root = page_twice and form = form_twice])
    (simp_all add: page_twice_def form_twice_def find_descendant_def findall_def)

text \<open>
  Claim C3 as the specification states it fails: an input that is a descendant of the
  first form, but not a child of it, is not in the dictionary.  Here the form's only
  input, with name and value, sits in a \<^verbatim>\<open>div\<close>, and the dictionary comes back empty.
\<close>

theorem extract_form_descendant_counterexample:
  "find_descendant ''form'' page_nested = Some form_nested
     \<and> nested_input \<in> set (iter_descendants form_nested)
     \<and> tag nested_input = ''input''
     \<and> map_of (attrib nested_input) ''name'' = Some ''SAMLRequest''
     \<and> map_of (attrib nested_input) ''value'' = Some ''abc''
     \<and> extract_form (\<lambda>_. Return page_nested) ''<html>'' = Return (''https://idp/sso'', [])"
  by (simp add: page_nested_def form_nested_def nested_input_def find_descendant_def
      findall_def extract_form_def rbind_def dict_get_def)

text \<open>
  Claim C10.  When a child input of the first form lacks the \<^verbatim>\<open>name\<close> or the \<^verbatim>\<open>value\<close>
  attribute, \<open>extract_form\<close> raises \<^verbatim>\<open>KeyError\<close>; it neither skips the input nor maps its
  name to an empty string.  So whenever \<open>extract_form\<close> returns, every child input of the
  first form carries both attributes.
\<close>

theorem extract_form_partial:
  assumes "parser html = Return root"
    and "find_descendant ''form'' root = Some form"
  shows "((\<exists>inp \<in> set (findall ''input'' form).
             map_of (attrib inp) ''name'' = None \<or> map_of (attrib inp) ''value'' = None)
          \<longrightarrow> extract_form parser html = Raise KeyError)
       \<and> (\<forall>action fields. extract_form parser html = Return (action, fields) \<longrightarrow>
            (\<forall>inp \<in> set (findall ''input'' form).
               map_of (attrib inp) ''name'' \<noteq> None \<and> map_of (attrib inp) ''value'' \<noteq> None))"
proof -
  have missing: "extract_form parser html = Raise KeyError"
    if "\<exists>inp \<in> set (findall ''input'' form).
          map_of (attrib inp) ''name'' = None \<or> map_of (attrib inp) ''value'' = None"
    using assms input_fields_missing[OF that, of "[]"]
    by (simp add: extract_form_def rbind_def dict_get_def split: option.splits)
  show ?thesis
  proof (intro conjI impI allI ballI)
    fix action fields inp
    assume ret: "extract_form parser html = Return (action, fields)"
      and inp: "inp \<in> set (findall ''input'' form)"
    show "map_of (attrib inp) ''name'' \<noteq> None"
      using missing ret inp by fastforce
    show "map_of (attrib inp) ''value'' \<noteq> None"
      using missing ret inp by fastforce
  qed (rule missing)
qed

theorem extract_form_partial_witness:
  "extract_form (\<lambda>_. Return page_submit) ''<html>'' = Raise KeyError
     \<and> map_of (attrib (Element ''input'' [(''type'', ''submit'')] None [])) ''name'' = None
     \<and> Element ''input'' [(''type'', ''submit'')] None [] \<in> set (findall ''input'' form_submit)"
  using extract_form_partial[where parser = "\<lambda>_. Return page_submit" and html = "''<html>''"
      and root = page_submit and form = form_submit]
  by (simp add: page_submit_def form_submit_def find_descendant_def findall_def)

section \<open>The authentication engine\<close>

lemma rbind_simps [simp]:
  "rbind (Return x) f = f x" "rbind (Raise e) f = Raise e" "rbind OutOfFuel f = OutOfFuel"
  by (simp_all add: rbind_def)

lemma sbind_simps [simp]:
  "sbind (Return x, s) f = f x s" "sbind (Raise e, s) f = (Raise e, s)"
  "sbind (OutOfFuel, s) f = (OutOfFuel, s)"
  by (simp_all add: sbind_def)

lemma post_json_answers:
  "answers env (s @ [json_request env href data]) j \<Longrightarrow>
   post_json env href data s = (Return j, s @ [json_request env href data])"
  by (simp add: post_json_def send_def check_def answers_def)

lemma insort_key_pair:
  "insort_key fst (g x, x) (map (\<lambda>y. (g y, y)) ys) = map (\<lambda>y. (g y, y)) (insort_key g x ys)"
  by (induction ys) auto

lemma sort_key_pair:
  "sort_key fst (map (\<lambda>y. (g y, y)) xs) = map (\<lambda>y. (g y, y)) (sort_key g xs)"
  by (induction xs) (auto simp: insort_key_pair)

lemma sort_key_zip: "map snd (sort_key fst (zip (map g xs) xs)) = sort_key g xs"
proof -
  have "zip (map g xs) xs = map (\<lambda>y. (g y, y)) xs"
    by (induction xs) auto
  then show ?thesis
    by (simp add: sort_key_pair comp_def)
qed

lemma keys_of_Return:
  "\<forall>x \<in> set xs. key x = Return (g x) \<Longrightarrow> keys_of key xs = Return (map g xs)"
  by (induction xs) auto

lemma priority_typed:
  "getitem factor ''factorType'' = Return (JStr ty) \<Longrightarrow>
   priority totp_key factor = Return (rank totp_key ty)"
  by (auto simp: priority_def rank_def)

lemma ftype_typed: "getitem factor ''factorType'' = Return (JStr ty) \<Longrightarrow> ftype factor = ty"
  by (simp add: ftype_def)

lemma typed_list:
  assumes "map (\<lambda>f. getitem f ''factorType'') factors = map (\<lambda>ty. Return (JStr ty)) types"
  shows "types = map ftype factors"
    and "\<forall>f \<in> set factors. getitem f ''factorType'' = Return (JStr (ftype f))"
  using assms
proof (induction factors arbitrary: types)
  case Nil
  { case 1 then show ?case by simp }
  { case 2 then show ?case by simp }
next
  case (Cons f fs)
  { case 1 with Cons show ?case by (cases types) (auto simp: ftype_def) }
  { case 2 with Cons show ?case by (cases types) (auto simp: ftype_def) }
qed

lemma sorted_by_key_typed:
  assumes "\<forall>f \<in> set factors. getitem f ''factorType'' = Return (JStr (ftype f))"
  shows "sorted_by_key (priority totp_key) (JArr factors)
           = Return (sort_key (\<lambda>f. rank totp_key (ftype f)) factors)"
proof -
  have "keys_of (priority totp_key) factors = Return (map (\<lambda>f. rank totp_key (ftype f)) factors)"
    using assms by (intro keys_of_Return) (simp add: priority_typed)
  then show ?thesis
    by (simp add: sorted_by_key_def sort_key_zip)
qed

lemma re_match_token_typed: "re_match_token (JStr ty) = Return (token_match ty)"
  by (simp add: re_match_token_def)

lemma factor_loop_none:
  "\<forall>f \<in> set fs. getitem f ''factorType'' = Return (JStr (ftype f)) \<and> \<not> supported (ftype f) \<Longrightarrow>
   factor_loop fuel env totp_key fs r s
     = (Raise (PyException ''No supported authentication factors''), s)"
  by (induction fs) (auto simp: supported_def re_match_token_typed)

lemma factor_loop_first:
  "\<forall>f \<in> set fs. getitem f ''factorType'' = Return (JStr (ftype f)) \<Longrightarrow>
   filter (\<lambda>f. supported (ftype f)) fs = c # cs \<Longrightarrow>
   factor_loop fuel env totp_key fs r s = run_factor fuel env totp_key c (ftype c) r s"
proof (induction fs)
  case Nil
  then show ?case by simp
next
  case (Cons f fs)
  show ?case
  proof (cases "supported (ftype f)")
    case True
    with Cons.prems have "c = f" by simp
    with True Cons.prems show ?thesis
      by (auto simp: run_factor_def supported_def re_match_token_typed)
  next
    case False
    with Cons have "factor_loop fuel env totp_key fs r s = run_factor fuel env totp_key c (ftype c) r s"
      by simp
    with False Cons.prems show ?thesis
      by (auto simp: supported_def re_match_token_typed)
  qed
qed

lemma hd_sort_key:
  "\<forall>u \<in> set us. g x < g u \<Longrightarrow> \<forall>y \<in> set vs. g x \<le> g y \<Longrightarrow>
   \<exists>rest. sort_key g (us @ x # vs) = x # rest"
proof (induction us)
  case Nil
  show ?case
  proof (cases "sort_key g vs")
    case Nil
    then show ?thesis by simp
  next
    case (Cons a as)
    then have "a \<in> set vs"
      by (metis list.set_intros(1) set_sort)
    with Nil.prems Cons show ?thesis by simp
  qed
next
  case (Cons u us)
  then obtain rest where "sort_key g (us @ x # vs) = x # rest" by auto
  with Cons.prems show ?case by (auto simp: not_le)
qed

lemma chosen_unique: "chosen totp_key types i \<Longrightarrow> chosen totp_key types j \<Longrightarrow> i = j"
proof (rule ccontr)
  assume i: "chosen totp_key types i" and j: "chosen totp_key types j" and "i \<noteq> j"
  then consider "i < j" | "j < i" by linarith
  then show False
  proof cases
    case 1
    with i j have "rank totp_key (types ! j) < rank totp_key (types ! i)"
      and "rank totp_key (types ! i) \<le> rank totp_key (types ! j)"
      by (auto simp: chosen_def)
    then show False by simp
  next
    case 2
    with i j have "rank totp_key (types ! i) < rank totp_key (types ! j)"
      and "rank totp_key (types ! j) \<le> rank totp_key (types ! i)"
      by (auto simp: chosen_def)
    then show False by simp
  qed
qed

lemma chosen_exists:
  assumes "\<exists>ty \<in> set types. supported ty"
  shows "\<exists>i. chosen totp_key types i"
proof -
  let ?S = "\<lambda>j. j < length types \<and> supported (types ! j)"
  from assms obtain j0 where "?S j0"
    by (auto simp: in_set_conv_nth)
  then obtain m where m: "?S m" and least: "\<forall>j. ?S j \<longrightarrow> rank totp_key (types ! m) \<le> rank totp_key (types ! j)"
    using ex_has_least_nat[of ?S j0 "\<lambda>j. rank totp_key (types ! j)"] by auto
  let ?T = "\<lambda>j. ?S j \<and> rank totp_key (types ! j) = rank totp_key (types ! m)"
  have "?T m" using m by simp
  then obtain i where i: "?T i" and first: "\<forall>j. ?T j \<longrightarrow> i \<le> j"
    using ex_has_least_nat[of ?T m "\<lambda>j. j"] by auto
  have "chosen totp_key types i"
    unfolding chosen_def
  proof (intro conjI allI impI)
    fix j assume "j < i" and "supported (types ! j)"
    with i have "?S j" by simp
    with least have "rank totp_key (types ! m) \<le> rank totp_key (types ! j)" by simp
    moreover have "rank totp_key (types ! j) \<noteq> rank totp_key (types ! m)"
      using first \<open>?S j\<close> \<open>j < i\<close> by fastforce
    ultimately show "rank totp_key (types ! i) < rank totp_key (types ! j)"
      using i by simp
  qed (use i least in auto)
  then show ?thesis ..
qed

lemma mfa_required_chosen:
  assumes typed: "map (\<lambda>f. getitem f ''factorType'') factors = map (\<lambda>ty. Return (JStr ty)) types"
    and factors: "rbind (getitem r ''_embedded'') (\<lambda>e. getitem e ''factors'') = Return (JArr factors)"
    and i: "chosen totp_key types i"
  shows "mfa_required fuel env totp_key r s
           = run_factor fuel env totp_key (factors ! i) (types ! i) r s"
proof -
  let ?g = "\<lambda>f. rank totp_key (ftype f)"
  let ?P = "\<lambda>f. supported (ftype f)"
  note types = typed_list(1)[OF typed] and all_typed = typed_list(2)[OF typed]
  from i have len: "i < length factors"
    by (simp add: chosen_def types)
  from i len have sup: "?P (factors ! i)"
    and least: "\<forall>j < length factors. ?P (factors ! j) \<longrightarrow> ?g (factors ! i) \<le> ?g (factors ! j)"
    and first: "\<forall>j < i. ?P (factors ! j) \<longrightarrow> ?g (factors ! i) < ?g (factors ! j)"
    by (simp_all add: chosen_def types)
  have before: "\<forall>u \<in> set (filter ?P (take i factors)). ?g (factors ! i) < ?g u"
  proof
    fix u assume "u \<in> set (filter ?P (take i factors))"
    then obtain j where "j < i" "u = factors ! j" "?P u"
      using len by (auto simp: in_set_conv_nth)
    with first show "?g (factors ! i) < ?g u"
      by simp
  qed
  have after: "\<forall>v \<in> set (filter ?P (drop (Suc i) factors)). ?g (factors ! i) \<le> ?g v"
  proof
    fix v assume "v \<in> set (filter ?P (drop (Suc i) factors))"
    then have "v \<in> set factors" and "?P v"
      by (auto dest: in_set_dropD)
    then obtain j where "j < length factors" "v = factors ! j" "?P v"
      by (auto simp: in_set_conv_nth)
    with least show "?g (factors ! i) \<le> ?g v"
      by simp
  qed
  have "filter ?P factors
          = filter ?P (take i factors) @ factors ! i # filter ?P (drop (Suc i) factors)"
    using len sup by (subst id_take_nth_drop[OF len]) simp
  then have "filter ?P (sort_key ?g factors)
          = sort_key ?g (filter ?P (take i factors) @ factors ! i # filter ?P (drop (Suc i) factors))"
    by (simp add: filter_sort)
  with hd_sort_key[OF before after]
  obtain rest where hd: "filter ?P (sort_key ?g factors) = factors ! i # rest"
    by auto
  have "factor_loop fuel env totp_key (sort_key ?g factors) r s
          = run_factor fuel env totp_key (factors ! i) (ftype (factors ! i)) r s"
    using all_typed by (intro factor_loop_first[OF _ hd]) simp
  then show ?thesis
    using len by (simp add: mfa_required_def factors sorted_by_key_typed[OF all_typed] types)
qed


lemma okta_auth_primary:
  assumes "answers env (s @ [authn_request env domain username password]) r"
    and "getitem r ''status'' = Return (JStr ''MFA_REQUIRED'')"
  shows "okta_auth fuel env domain username password totp_key s =
     sbind (mfa_required fuel env totp_key r (s @ [authn_request env domain username password]))
       (\<lambda>r s.
     sbind (getitem r ''status'', s) (\<lambda>status s.
     if status \<noteq> JStr ''SUCCESS'' then (Raise AssertionError, s)
     else (getitem r ''sessionToken'', s)))"
  using assms post_json_answers[of env s "JStr (''https://'' @ domain @ ''/api/v1/authn'')"
      "[(''username'', JStr username), (''password'', JStr password)]" r]
  by (simp add: okta_auth_def authn_request_def)

text \<open>
  Claim C5.  When the response to the primary authentication has the status
  \<^verbatim>\<open>MFA_REQUIRED\<close> and none of the factors it lists (each a dictionary with a string as
  \<^verbatim>\<open>factorType\<close>) has a supported type, also when it lists no factor at all, \<open>okta_auth\<close>
  raises the exception \<^verbatim>\<open>No supported authentication factors\<close> (the specification's
  \<^verbatim>\<open>NoSupportedFactorError\<close>), and the only request of the session is the primary
  authentication: nothing is sent after it and nothing is tried again.
\<close>

theorem no_supported_factor:
  assumes "answers env (s @ [authn_request env domain username password]) r"
    and "getitem r ''status'' = Return (JStr ''MFA_REQUIRED'')"
    and "rbind (getitem r ''_embedded'') (\<lambda>e. getitem e ''factors'') = Return (JArr factors)"
    and "map (\<lambda>f. getitem f ''factorType'') factors = map (\<lambda>ty. Return (JStr ty)) types"
    and "\<forall>ty \<in> set types. \<not> supported ty"
  shows "okta_auth fuel env domain username password totp_key s
           = (Raise (PyException ''No supported authentication factors''),
              s @ [authn_request env domain username password])"
proof -
  note types = typed_list(1)[OF assms(4)] and all_typed = typed_list(2)[OF assms(4)]
  have "\<forall>f \<in> set (sort_key (\<lambda>f. rank totp_key (ftype f)) factors).
          getitem f ''factorType'' = Return (JStr (ftype f)) \<and> \<not> supported (ftype f)"
    using all_typed assms(5) by (simp add: types)
  then have "mfa_required fuel env totp_key r (s @ [authn_request env domain username password])
          = (Raise (PyException ''No supported authentication factors''),
             s @ [authn_request env domain username password])"
    by (simp add: mfa_required_def assms(3) sorted_by_key_typed[OF all_typed] factor_loop_none)
  then show ?thesis
    by (simp add: okta_auth_primary[OF assms(1,2)])
qed

lemma push_poll_run:
  assumes "map (\<lambda>w. getitem w ''stateToken'') (r0 # ws) = map Return tokens"
    and "\<forall>w \<in> set ws. getitem w ''status'' = Return (JStr ''MFA_CHALLENGE'')
           \<and> getitem w ''factorResult'' = Return (JStr ''WAITING'')"
    and "scripted env s (map (\<lambda>t. json_request env href (push_data t)) tokens) (ws @ [final])"
    and "getitem final ''status'' = Return st"
  shows "push_poll (Suc (length ws) + k) env href r0 s =
           (if st \<noteq> JStr ''MFA_CHALLENGE''
            then (Return final, s @ map (\<lambda>t. json_request env href (push_data t)) tokens)
            else sbind (getitem final ''factorResult'',
                        s @ map (\<lambda>t. json_request env href (push_data t)) tokens)
                   (\<lambda>factor_result s.
                      if factor_result = JStr ''WAITING'' then push_poll k env href final s
                      else (Raise AssertionError, s)))"
  using assms
proof (induction ws arbitrary: r0 s tokens)
  case Nil
  then obtain t where t: "tokens = [t]" "getitem r0 ''stateToken'' = Return t"
    by (cases tokens) auto
  with Nil show ?case
    by (simp add: post_json_answers)
next
  case (Cons w ws)
  then obtain t ts where t: "tokens = t # ts" "getitem r0 ''stateToken'' = Return t"
    "map (\<lambda>w. getitem w ''stateToken'') (w # ws) = map Return ts"
    by (cases tokens) auto
  from Cons.prems t have ans: "answers env (s @ [json_request env href (push_data t)]) w"
    and rest: "scripted env (s @ [json_request env href (push_data t)])
                 (map (\<lambda>t. json_request env href (push_data t)) ts) (ws @ [final])"
    by simp_all
  have "push_poll (Suc (length ws) + k) env href w (s @ [json_request env href (push_data t)]) =
           (if st \<noteq> JStr ''MFA_CHALLENGE''
            then (Return final, (s @ [json_request env href (push_data t)])
                    @ map (\<lambda>t. json_request env href (push_data t)) ts)
            else sbind (getitem final ''factorResult'',
                        (s @ [json_request env href (push_data t)])
                          @ map (\<lambda>t. json_request env href (push_data t)) ts)
                   (\<lambda>factor_result s.
                      if factor_result = JStr ''WAITING'' then push_poll k env href final s
                      else (Raise AssertionError, s)))"
    using Cons.prems by (intro Cons.IH[OF t(3) _ rest]) simp_all
  with Cons.prems t ans show ?case
    by (simp add: post_json_answers)
qed

lemma post_json_log: "snd (post_json env href data s) = s @ [json_request env href data]"
  by (simp add: post_json_def send_def sbind_def check_def split: option.splits)

text \<open>
  Claim C1, as the code has it.  For a response whose factors are dictionaries with a
  string as \<^verbatim>\<open>factorType\<close>: the sort key of a factor is the rank of its type (software
  TOTP first only with a seed, push in the middle, every other type last); when at least
  one factor has a supported type, exactly one position of the list is chosen, the
  supported factor of the smallest rank that the server listed first; and the engine
  continues with the factor at that position and with no other.  Factors of an
  unsupported type are passed over, whatever their rank.
\<close>

theorem factor_selection:
  assumes typed: "map (\<lambda>f. getitem f ''factorType'') factors = map (\<lambda>ty. Return (JStr ty)) types"
    and factors: "rbind (getitem r ''_embedded'') (\<lambda>e. getitem e ''factors'') = Return (JArr factors)"
  shows "(\<forall>f ty. getitem f ''factorType'' = Return (JStr ty) \<longrightarrow>
            priority totp_key f = Return (rank totp_key ty))
       \<and> ((\<exists>ty \<in> set types. supported ty) \<longrightarrow> (\<exists>!i. chosen totp_key types i))
       \<and> (\<forall>i. chosen totp_key types i \<longrightarrow>
            mfa_required fuel env totp_key r s
              = run_factor fuel env totp_key (factors ! i) (types ! i) r s)"
proof (intro conjI allI impI)
  fix f ty assume "getitem f ''factorType'' = Return (JStr ty)"
  then show "priority totp_key f = Return (rank totp_key ty)"
    by (rule priority_typed)
next
  assume "\<exists>ty \<in> set types. supported ty"
  then show "\<exists>!i. chosen totp_key types i"
    using chosen_exists chosen_unique by blast
next
  fix i assume "chosen totp_key types i"
  then show "mfa_required fuel env totp_key r s
               = run_factor fuel env totp_key (factors ! i) (types ! i) r s"
    by (rule mfa_required_chosen[OF typed factors])
qed

lemma chosen_0: "chosen (Some ''k'') [''token:software:totp'', ''push'', ''sms''] 0"
  by (auto simp: chosen_def supported_def rank_def token_match_def less_Suc_eq numeral_3_eq_3)

lemma chosen_1: "chosen None [''token:software:totp'', ''push'', ''sms''] 1"
  by (auto simp: chosen_def supported_def rank_def token_match_def less_Suc_eq numeral_3_eq_3)

lemma chosen_2: "chosen None [''sms'', ''push''] 1"
  by (auto simp: chosen_def supported_def rank_def token_match_def less_Suc_eq numeral_2_eq_2)

lemma chosen_3: "chosen None [''sms''] 0"
  by (auto simp: chosen_def supported_def rank_def token_match_def)

lemma typed_examples:
  "getitem totp_f ''factorType'' = Return (JStr ''token:software:totp'')"
  "getitem push_f ''factorType'' = Return (JStr ''push'')"
  "getitem sms_f ''factorType'' = Return (JStr ''sms'')"
  "getitem question_f ''factorType'' = Return (JStr ''question'')"
  by (simp_all add: totp_f_def push_f_def sms_f_def question_f_def factor_json_def dict_get_def)

lemma factors_example:
  "rbind (getitem (mfa_response fs) ''_embedded'') (\<lambda>e. getitem e ''factors'') = Return (JArr fs)"
  by (simp add: mfa_response_def dict_get_def)

text \<open>
  The four cases of the specification: software TOTP, push and sms with a seed go on with
  software TOTP, without a seed with push; sms and push go on with push; sms alone with
  sms.
\<close>

theorem factor_selection_witness:
  "mfa_required 5 (canned []) (Some ''k'') (mfa_response [totp_f, push_f, sms_f]) []
     = token_factor (canned []) (Some ''k'') totp_f (mfa_response [totp_f, push_f, sms_f]) []
   \<and> mfa_required 5 (canned []) None (mfa_response [totp_f, push_f, sms_f]) []
     = push_factor 5 (canned []) push_f (mfa_response [totp_f, push_f, sms_f]) []
   \<and> mfa_required 5 (canned []) None (mfa_response [sms_f, push_f]) []
     = push_factor 5 (canned []) push_f (mfa_response [sms_f, push_f]) []
   \<and> mfa_required 5 (canned []) None (mfa_response [sms_f]) []
     = sms_factor (canned []) sms_f (mfa_response [sms_f]) []"
  using
    factor_selection[where factors = "[totp_f, push_f, sms_f]"
      and types = "[''token:software:totp'', ''push'', ''sms'']" and totp_key = "Some ''k''"
      and r = "mfa_response [totp_f, push_f, sms_f]" and fuel = 5 and env = "canned []" and s = "[]"]
    factor_selection[where factors = "[totp_f, push_f, sms_f]"
      and types = "[''token:software:totp'', ''push'', ''sms'']" and totp_key = None
      and r = "mfa_response [totp_f, push_f, sms_f]" and fuel = 5 and env = "canned []" and s = "[]"]
    factor_selection[where factors = "[sms_f, push_f]"
      and types = "[''sms'', ''push'']" and totp_key = None
      and r = "mfa_response [sms_f, push_f]" and fuel = 5 and env = "canned []" and s = "[]"]
    factor_selection[where factors = "[sms_f]"
      and types = "[''sms'']" and totp_key = None
      and r = "mfa_response [sms_f]" and fuel = 5 and env = "canned []" and s = "[]"]
    chosen_0 chosen_1 chosen_2 chosen_3
  by (simp add: typed_examples factors_example run_factor_def)

lemmas eval_defs =
  okta_auth_def mfa_required_def post_json_def send_def check_def json_request_def
  sorted_by_key_def priority_def re_match_token_def token_match_def verify_href_def
  push_factor_def sms_factor_def token_factor_def token_code_def token_prompt_def str_of_def
  push_data_def dict_get_def authn_request_def
  canned_def json_response_def no_response_def factor_json_def totp_f_def push_f_def sms_f_def
  question_f_def mfa_response_def waiting_response_def challenge_response_def
  success_response_def rejected_response_def push_server_def reject_server_def

text \<open>
  Claim C1 as the specification states it fails: a factor list that is not empty need not
  have a chosen factor.  With the security question as only factor the engine raises and
  sends nothing after the primary authentication.  And the order of the server does not
  decide among equal ranks when the first factor is unsupported: the question and sms
  have the same rank, the question comes first, and the requests go to sms.
\<close>

theorem factor_selection_counterexample:
  "okta_auth 5 (canned [json_response (mfa_response [question_f])]) ''idp.example'' ''u'' ''p'' None []
     = (Raise (PyException ''No supported authentication factors''),
        [authn_request (canned [json_response (mfa_response [question_f])]) ''idp.example'' ''u'' ''p''])
   \<and> priority None question_f = Return 2 \<and> priority None sms_f = Return 2
   \<and> map req_url (snd (okta_auth 5 (canned (map json_response [mfa_response [question_f, sms_f], challenge_response, success_response])) ''idp.example'' ''u'' ''p'' None []))
     = [JStr ''https://idp.example/api/v1/authn'', JStr ''https://idp.example/sms'', JStr ''https://idp.example/sms'']"
  by (simp add: eval_defs)

lemma json_request_push: "json_request env href (push_data t) = poll_request env href t"
  by (simp add: json_request_def push_data_def poll_request_def)

lemma json_request_state:
  "json_request env href [(''stateToken'', t)] = state_request env href t"
  by (simp add: json_request_def state_request_def)

text \<open>
  Claim C2.  The server answers the primary authentication with \<open>r\<close>, a response of status
  \<^verbatim>\<open>MFA_REQUIRED\<close> whose first factor in the order of priority is a push factor with the
  verify address \<open>href\<close>.  It answers the polls with the responses \<open>ws\<close>, all of status
  \<^verbatim>\<open>MFA_CHALLENGE\<close> with the factor result \<^verbatim>\<open>WAITING\<close>, and then with \<open>final\<close>.  Then the
  engine, given fuel for one iteration more than there are waiting responses, sends
  exactly one poll more than there are waiting responses and stops at \<open>final\<close>.  Every poll
  is a POST to \<open>href\<close> whose JSON body holds as \<^verbatim>\<open>stateToken\<close> the state token of the
  response before it (\<open>tokens\<close>: the token of \<open>r\<close> first, then those of \<open>ws\<close>),
  \<^verbatim>\<open>rememberDevice\<close> set to true and the device token (\<open>poll_request\<close>).  When the status
  of \<open>final\<close> is not \<^verbatim>\<open>MFA_CHALLENGE\<close> the loop ends, and the engine returns the session
  token of \<open>final\<close> if its status is \<^verbatim>\<open>SUCCESS\<close> (an assertion fails otherwise); when the
  status is \<^verbatim>\<open>MFA_CHALLENGE\<close> with a factor result other than \<^verbatim>\<open>WAITING\<close>, the assertion
  of the loop fails.
\<close>

theorem push_polling:
  assumes primary: "answers env (s @ [authn_request env domain username password]) r"
    and status: "getitem r ''status'' = Return (JStr ''MFA_REQUIRED'')"
    and factors: "rbind (getitem r ''_embedded'') (\<lambda>e. getitem e ''factors'') = Return factors"
    and ordered: "sorted_by_key (priority totp_key) factors = Return (factor # rest)"
    and push: "getitem factor ''factorType'' = Return (JStr ''push'')"
    and href: "verify_href factor = Return href"
    and tokens: "map (\<lambda>w. getitem w ''stateToken'') (r # ws) = map Return tokens"
    and waiting: "\<forall>w \<in> set ws. getitem w ''status'' = Return (JStr ''MFA_CHALLENGE'')
                    \<and> getitem w ''factorResult'' = Return (JStr ''WAITING'')"
    and script: "scripted env (s @ [authn_request env domain username password])
                   (map (poll_request env href) tokens)
                   (ws @ [final])"
    and final: "getitem final ''status'' = Return st"
  shows "length tokens = Suc (length ws)
       \<and> (st \<noteq> JStr ''MFA_CHALLENGE'' \<longrightarrow>
            okta_auth (Suc (length ws) + k) env domain username password totp_key s
              = (if st = JStr ''SUCCESS'' then getitem final ''sessionToken''
                 else Raise AssertionError,
                 s @ authn_request env domain username password
                   # map (poll_request env href) tokens))
       \<and> (st = JStr ''MFA_CHALLENGE'' \<longrightarrow>
            (\<forall>fr. getitem final ''factorResult'' = Return fr \<longrightarrow> fr \<noteq> JStr ''WAITING'' \<longrightarrow>
               okta_auth (Suc (length ws) + k) env domain username password totp_key s
                 = (Raise AssertionError,
                    s @ authn_request env domain username password
                      # map (poll_request env href) tokens)))"
proof -
  let ?s = "s @ [authn_request env domain username password]"
  let ?reqs = "map (\<lambda>t. json_request env href (push_data t)) tokens"
  have reqs: "map (poll_request env href) tokens = ?reqs"
    by (simp add: json_request_push)
  have len: "length tokens = Suc (length ws)"
    using arg_cong[OF tokens, of length] by simp
  have mfa: "mfa_required n env totp_key r ?s = push_poll n env href r ?s" for n
    by (simp add: mfa_required_def factors ordered push push_factor_def href del: push_poll.simps)
  note run = push_poll_run[OF tokens waiting script[unfolded reqs] final, of k]
  show ?thesis
    unfolding reqs
  proof (intro conjI impI allI)
    show "length tokens = Suc (length ws)" by (rule len)
  next
    assume "st \<noteq> JStr ''MFA_CHALLENGE''"
    with run final show "okta_auth (Suc (length ws) + k) env domain username password totp_key s
              = (if st = JStr ''SUCCESS'' then getitem final ''sessionToken''
                 else Raise AssertionError, s @ authn_request env domain username password # ?reqs)"
      by (simp add: okta_auth_primary[OF primary status] mfa del: push_poll.simps)
  next
    fix fr
    assume "st = JStr ''MFA_CHALLENGE''" "getitem final ''factorResult'' = Return fr"
      "fr \<noteq> JStr ''WAITING''"
    with run final show "okta_auth (Suc (length ws) + k) env domain username password totp_key s
              = (Raise AssertionError, s @ authn_request env domain username password # ?reqs)"
      by (simp add: okta_auth_primary[OF primary status] mfa del: push_poll.simps)
  qed
qed



text \<open>
  The scripted server of the specification: \<^verbatim>\<open>MFA_CHALLENGE\<close> and \<^verbatim>\<open>WAITING\<close> twice, then
  \<^verbatim>\<open>SUCCESS\<close>.  The engine sends three polls, with the state tokens \<^verbatim>\<open>st0\<close>, \<^verbatim>\<open>st1\<close> and
  \<^verbatim>\<open>st2\<close> in this order, and returns the session token.  A server that answers the first
  poll with a rejection makes the assertion fail.
\<close>

theorem push_polling_witness:
  "okta_auth 3 push_server ''idp.example'' ''u'' ''p'' None []
     = (Return (JStr ''T''),
        [authn_request push_server ''idp.example'' ''u'' ''p'',
         Request POST (JStr ''https://idp.example/push'')
           (JsonBody (JObj [(''stateToken'', JStr ''st0''), (''rememberDevice'', JBool True),
                            (''context'', JObj [(''deviceToken'', JStr ''42'')])])),
         Request POST (JStr ''https://idp.example/push'')
           (JsonBody (JObj [(''stateToken'', JStr ''st1''), (''rememberDevice'', JBool True),
                            (''context'', JObj [(''deviceToken'', JStr ''42'')])])),
         Request POST (JStr ''https://idp.example/push'')
           (JsonBody (JObj [(''stateToken'', JStr ''st2''), (''rememberDevice'', JBool True),
                            (''context'', JObj [(''deviceToken'', JStr ''42'')])]))])
   \<and> okta_auth 1 reject_server ''idp.example'' ''u'' ''p'' None []
     = (Raise AssertionError,
        [authn_request reject_server ''idp.example'' ''u'' ''p'',
         Request POST (JStr ''https://idp.example/push'')
           (JsonBody (JObj [(''stateToken'', JStr ''st0''), (''rememberDevice'', JBool True),
                            (''context'', JObj [(''deviceToken'', JStr ''42'')])]))])"
proof -
  have a: "okta_auth (Suc (length [waiting_response ''st1'', waiting_response ''st2'']) + 0)
             push_server ''idp.example'' ''u'' ''p'' None []
     = (Return (JStr ''T''),
        authn_request push_server ''idp.example'' ''u'' ''p''
          # map (poll_request push_server (JStr ''https://idp.example/push''))
              [JStr ''st0'', JStr ''st1'', JStr ''st2''])"
    using push_polling[where env = push_server and s = "[]" and domain = "''idp.example''"
        and username = "''u''" and password = "''p''" and totp_key = None
        and r = "mfa_response [sms_f, push_f]" and factors = "JArr [sms_f, push_f]"
        and factor = push_f and rest = "[sms_f]" and href = "JStr ''https://idp.example/push''"
        and ws = "[waiting_response ''st1'', waiting_response ''st2'']"
        and tokens = "[JStr ''st0'', JStr ''st1'', JStr ''st2'']"
        and final = success_response and st = "JStr ''SUCCESS''" and k = 0]
    by (simp add: eval_defs answers_def poll_request_def)
  have b: "okta_auth (Suc (length ([] :: json list)) + 0)
             reject_server ''idp.example'' ''u'' ''p'' None []
     = (Raise AssertionError,
        authn_request reject_server ''idp.example'' ''u'' ''p''
          # map (poll_request reject_server (JStr ''https://idp.example/push'')) [JStr ''st0''])"
    using push_polling[where env = reject_server and s = "[]" and domain = "''idp.example''"
        and username = "''u''" and password = "''p''" and totp_key = None
        and r = "mfa_response [sms_f, push_f]" and factors = "JArr [sms_f, push_f]"
        and factor = push_f and rest = "[sms_f]" and href = "JStr ''https://idp.example/push''"
        and ws = "[]"
        and tokens = "[JStr ''st0'']"
        and final = rejected_response and st = "JStr ''MFA_CHALLENGE''" and k = 0]
    by (simp add: eval_defs answers_def poll_request_def)
  have n: "getnode push_server = ''42''" "getnode reject_server = ''42''"
    by (simp_all add: push_server_def reject_server_def canned_def)
  from a b show ?thesis
    by (simp add: numeral_3_eq_3 poll_request_def n)
qed


lemma no_remember_state: "no_remember_device (json_request env href [(''stateToken'', tok)])"
  by (simp add: no_remember_device_def json_request_def)

lemma no_remember_code:
  "no_remember_device (json_request env href [(''stateToken'', tok), (''passCode'', code)])"
  by (simp add: no_remember_device_def json_request_def)

lemma push_poll_polls:
  "\<exists>toks. snd (push_poll fuel env href r s) = s @ map (poll_request env href) toks"
proof (induction fuel arbitrary: r s)
  case 0
  show ?case by simp
next
  case (Suc fuel)
  show ?case
  proof (cases "getitem r ''stateToken''")
    case (Return tok)
    let ?q = "poll_request env href tok"
    obtain res where post: "post_json env href (push_data tok) s = (res, s @ [?q])"
      using post_json_log[of env href "push_data tok" s]
      by (cases "post_json env href (push_data tok) s") (simp add: json_request_push)
    show ?thesis
    proof (cases res)
      case (Return r')
      from Suc.IH[of r' "s @ [?q]"] obtain toks
        where toks: "snd (push_poll fuel env href r' (s @ [?q]))
                       = (s @ [?q]) @ map (poll_request env href) toks"
        by blast
      have "snd (push_poll (Suc fuel) env href r s) = s @ map (poll_request env href) [tok]
            \<or> snd (push_poll (Suc fuel) env href r s)
                = s @ map (poll_request env href) (tok # toks)"
        using \<open>getitem r ''stateToken'' = Return tok\<close> post Return toks
        by (cases "getitem r' ''status''"; cases "getitem r' ''factorResult''") auto
      then show ?thesis by blast
    next
      case OutOfFuel
      with \<open>getitem r ''stateToken'' = Return tok\<close> post show ?thesis
        by (auto intro!: exI[of _ "[tok]"])
    next
      case (Raise e)
      with \<open>getitem r ''stateToken'' = Return tok\<close> post show ?thesis
        by (auto intro!: exI[of _ "[tok]"])
    qed
  qed (simp_all add: exI[of _ "[]"])
qed

lemma push_poll_first:
  assumes "getitem r ''stateToken'' = Return tok"
  shows "\<exists>toks. snd (push_poll (Suc fuel) env href r s)
                  = s @ map (poll_request env href) (tok # toks)"
proof -
  let ?q = "poll_request env href tok"
  obtain res where post: "post_json env href (push_data tok) s = (res, s @ [?q])"
    using post_json_log[of env href "push_data tok" s]
    by (cases "post_json env href (push_data tok) s") (simp add: json_request_push)
  show ?thesis
  proof (cases res)
    case (Return r')
    from push_poll_polls[of fuel env href r' "s @ [?q]"] obtain toks
      where toks: "snd (push_poll fuel env href r' (s @ [?q]))
                     = (s @ [?q]) @ map (poll_request env href) toks"
      by blast
    have "snd (push_poll (Suc fuel) env href r s) = s @ map (poll_request env href) (tok # [])
          \<or> snd (push_poll (Suc fuel) env href r s)
              = s @ map (poll_request env href) (tok # toks)"
      using assms post Return toks
      by (cases "getitem r' ''status''"; cases "getitem r' ''factorResult''") auto
    then show ?thesis by blast
  next
    case OutOfFuel
    with assms post show ?thesis
      by (auto intro!: exI[of _ "[]"])
  next
    case (Raise e)
    with assms post show ?thesis
      by (auto intro!: exI[of _ "[]"])
  qed
qed

lemma two_step_requests:
  assumes "\<And>tok. P (json_request env href [(''stateToken'', tok)])"
    and "\<And>tok code. P (json_request env href [(''stateToken'', tok), (''passCode'', code)])"
  shows "\<exists>new. snd (sbind (getitem r ''stateToken'', s) (\<lambda>state_token s.
     sbind (post_json env href [(''stateToken'', state_token)] s) (\<lambda>r s.
     sbind (getitem r ''status'', s) (\<lambda>status s.
     if status \<noteq> JStr ''MFA_CHALLENGE'' then (Raise AssertionError, s)
     else
       sbind (code r, s) (\<lambda>c s.
       sbind (getitem r ''stateToken'', s) (\<lambda>state_token s.
       post_json env href [(''stateToken'', state_token), (''passCode'', JStr c)] s)))))) = s @ new \<and> list_all P new"
proof (cases "getitem r ''stateToken''")
  case (Return tok)
  let ?q = "json_request env href [(''stateToken'', tok)]"
  obtain res where post: "post_json env href [(''stateToken'', tok)] s = (res, s @ [?q])"
    using post_json_log[of env href "[(''stateToken'', tok)]" s]
    by (cases "post_json env href [(''stateToken'', tok)] s") simp
  show ?thesis
  proof (cases res)
    case (Return r')
    show ?thesis
    proof (cases "getitem r' ''status'' = Return (JStr ''MFA_CHALLENGE'')
                  \<and> (\<exists>c. code r' = Return c) \<and> (\<exists>t. getitem r' ''stateToken'' = Return t)")
      case True
      then obtain c t where ct: "code r' = Return c" "getitem r' ''stateToken'' = Return t"
        and st: "getitem r' ''status'' = Return (JStr ''MFA_CHALLENGE'')" by blast
      let ?q2 = "json_request env href [(''stateToken'', t), (''passCode'', JStr c)]"
      show ?thesis
        using \<open>getitem r ''stateToken'' = Return tok\<close> post Return ct st assms
          post_json_log[of env href "[(''stateToken'', t), (''passCode'', JStr c)]" "s @ [?q]"]
        by (intro exI[of _ "[?q, ?q2]"]) simp
    next
      case False
      then show ?thesis
        using \<open>getitem r ''stateToken'' = Return tok\<close> post Return assms
        by (intro exI[of _ "[?q]"])
          (cases "getitem r' ''status''"; cases "code r'"; cases "getitem r' ''stateToken''"; auto)
    qed
  next
    case OutOfFuel
    with \<open>getitem r ''stateToken'' = Return tok\<close> post assms show ?thesis
      by (intro exI[of _ "[?q]"]) simp
  next
    case (Raise e)
    with \<open>getitem r ''stateToken'' = Return tok\<close> post assms show ?thesis
      by (intro exI[of _ "[?q]"]) simp
  qed
qed simp_all

lemma no_remember_state_request: "no_remember_device (state_request env href tok)"
  by (simp add: no_remember_device_def state_request_def)

lemma two_step_first:
  assumes "getitem r ''stateToken'' = Return tok"
  shows "\<exists>rest. snd (sbind (getitem r ''stateToken'', s) (\<lambda>state_token s.
     sbind (post_json env href [(''stateToken'', state_token)] s) (\<lambda>r s.
     sbind (getitem r ''status'', s) (\<lambda>status s.
     if status \<noteq> JStr ''MFA_CHALLENGE'' then (Raise AssertionError, s)
     else
       sbind (code r, s) (\<lambda>c s.
       sbind (getitem r ''stateToken'', s) (\<lambda>state_token s.
       post_json env href [(''stateToken'', state_token), (''passCode'', JStr c)] s))))))
     = s @ state_request env href tok # rest"
proof -
  let ?q = "state_request env href tok"
  obtain res where post: "post_json env href [(''stateToken'', tok)] s = (res, s @ [?q])"
    using post_json_log[of env href "[(''stateToken'', tok)]" s]
    by (cases "post_json env href [(''stateToken'', tok)] s") (simp add: json_request_state)
  show ?thesis
  proof (cases res)
    case (Return r')
    show ?thesis
    proof (cases "getitem r' ''status'' = Return (JStr ''MFA_CHALLENGE'')
                  \<and> (\<exists>c. code r' = Return c) \<and> (\<exists>t. getitem r' ''stateToken'' = Return t)")
      case True
      then obtain c t where ct: "code r' = Return c" "getitem r' ''stateToken'' = Return t"
        and st: "getitem r' ''status'' = Return (JStr ''MFA_CHALLENGE'')" by blast
      let ?q2 = "json_request env href [(''stateToken'', t), (''passCode'', JStr c)]"
      show ?thesis
        using assms post Return ct st
          post_json_log[of env href "[(''stateToken'', t), (''passCode'', JStr c)]" "s @ [?q]"]
        by (intro exI[of _ "[?q2]"]) simp
    next
      case False
      then show ?thesis
        using assms post Return
        by (intro exI[of _ "[]"])
          (cases "getitem r' ''status''"; cases "code r'"; cases "getitem r' ''stateToken''"; auto)
    qed
  next
    case OutOfFuel
    with assms post show ?thesis
      by (intro exI[of _ "[]"]) simp
  next
    case (Raise e)
    with assms post show ?thesis
      by (intro exI[of _ "[]"]) simp
  qed
qed


text \<open>
  Claim C9.  Whatever the server answers and however the branch ends (it returns, it
  raises, or the fuel ends), the requests the push branch sends are polls: each a POST to
  the verify address whose JSON body holds a state token, \<^verbatim>\<open>rememberDevice\<close> set to true
  and the device token; and every request the sms branch or the token branch sends has a
  JSON dictionary as body without the key \<^verbatim>\<open>rememberDevice\<close>.  The branches do send: for a
  factor with a verify address and a response \<open>r\<close> with a state token, the push branch
  (with fuel for one iteration at least) sends a poll with the state token of \<open>r\<close> first,
  and the sms and the token branch send first the request that holds the state token of
  \<open>r\<close> and the device token only.
\<close>

theorem remember_device_only_push:
  "(\<exists>href toks. snd (push_factor fuel env factor r s) = s @ map (poll_request env href) toks)
   \<and> (\<exists>new. snd (sms_factor env factor r s) = s @ new \<and> list_all no_remember_device new)
   \<and> (\<exists>new. snd (token_factor env totp_key factor r s) = s @ new
         \<and> list_all no_remember_device new)
   \<and> (\<forall>href tok. verify_href factor = Return href \<longrightarrow> getitem r ''stateToken'' = Return tok \<longrightarrow>
         (\<exists>toks. snd (push_factor (Suc fuel) env factor r s)
                    = s @ map (poll_request env href) (tok # toks))
       \<and> (\<exists>rest. snd (sms_factor env factor r s) = s @ state_request env href tok # rest)
       \<and> (\<exists>rest. snd (token_factor env totp_key factor r s)
                    = s @ state_request env href tok # rest))"
proof (intro conjI allI impI)
  show "\<exists>href toks. snd (push_factor fuel env factor r s) = s @ map (poll_request env href) toks"
  proof (cases "verify_href factor")
    case (Return href)
    with push_poll_polls[of fuel env href r s] show ?thesis
      by (auto simp: push_factor_def)
  qed (simp_all add: push_factor_def exI[of _ "[]"])
  show "\<exists>new. snd (sms_factor env factor r s) = s @ new \<and> list_all no_remember_device new"
  proof (cases "verify_href factor")
    case (Return href)
    show ?thesis
      unfolding sms_factor_def Let_def Return sbind_simps
      by (rule two_step_requests[of no_remember_device env href r s
            "\<lambda>_. Return (input env ''SMS code: '')", OF no_remember_state no_remember_code,
            unfolded sbind_simps])
  qed (simp_all add: sms_factor_def)
  show "\<exists>new. snd (token_factor env totp_key factor r s) = s @ new
          \<and> list_all no_remember_device new"
  proof (cases "verify_href factor")
    case (Return href)
    show ?thesis
      unfolding token_factor_def Return sbind_simps
      by (rule two_step_requests[of no_remember_device env href r s
            "\<lambda>_. token_code env totp_key factor", OF no_remember_state no_remember_code,
            unfolded sbind_simps])
  qed (simp_all add: token_factor_def)
next
  fix href tok
  assume href: "verify_href factor = Return href" and tok: "getitem r ''stateToken'' = Return tok"
  show "\<exists>toks. snd (push_factor (Suc fuel) env factor r s)
                  = s @ map (poll_request env href) (tok # toks)"
    using push_poll_first[OF tok, of fuel env href s]
    by (simp add: push_factor_def href del: push_poll.simps)
  show "\<exists>rest. snd (sms_factor env factor r s) = s @ state_request env href tok # rest"
    unfolding sms_factor_def Let_def href sbind_simps
    by (rule two_step_first[OF tok, of s env href "\<lambda>_. Return (input env ''SMS code: '')",
          unfolded sbind_simps])
  show "\<exists>rest. snd (token_factor env totp_key factor r s) = s @ state_request env href tok # rest"
    unfolding token_factor_def href sbind_simps
    by (rule two_step_first[OF tok, of s env href "\<lambda>_. token_code env totp_key factor",
          unfolded sbind_simps])
qed

text \<open>
  The branches on example servers: the three polls of the push example, and the two
  requests of the sms example (the second with the pass code).
\<close>

theorem remember_device_only_push_witness:
  "(\<exists>toks. snd (push_factor (Suc 2) push_server push_f (mfa_response [sms_f, push_f])
                   [authn_request push_server ''idp.example'' ''u'' ''p''])
              = [authn_request push_server ''idp.example'' ''u'' ''p'']
                @ map (poll_request push_server (JStr ''https://idp.example/push''))
                    (JStr ''st0'' # toks))
   \<and> snd (push_factor 3 push_server push_f (mfa_response [sms_f, push_f])
            [authn_request push_server ''idp.example'' ''u'' ''p''])
     = [authn_request push_server ''idp.example'' ''u'' ''p'',
        Request POST (JStr ''https://idp.example/push'')
          (JsonBody (JObj [(''stateToken'', JStr ''st0''), (''rememberDevice'', JBool True),
                           (''context'', JObj [(''deviceToken'', JStr ''42'')])])),
        Request POST (JStr ''https://idp.example/push'')
          (JsonBody (JObj [(''stateToken'', JStr ''st1''), (''rememberDevice'', JBool True),
                           (''context'', JObj [(''deviceToken'', JStr ''42'')])])),
        Request POST (JStr ''https://idp.example/push'')
          (JsonBody (JObj [(''stateToken'', JStr ''st2''), (''rememberDevice'', JBool True),
                           (''context'', JObj [(''deviceToken'', JStr ''42'')])]))]
   \<and> snd (sms_factor sms_server sms_f (mfa_response [sms_f])
            [authn_request sms_server ''idp.example'' ''u'' ''p''])
     = [authn_request sms_server ''idp.example'' ''u'' ''p'',
        Request POST (JStr ''https://idp.example/sms'')
          (JsonBody (JObj [(''stateToken'', JStr ''st0''),
                           (''context'', JObj [(''deviceToken'', JStr ''42'')])])),
        Request POST (JStr ''https://idp.example/sms'')
          (JsonBody (JObj [(''stateToken'', JStr ''st1''), (''passCode'', JStr ''654321''),
                           (''context'', JObj [(''deviceToken'', JStr ''42'')])]))]"
proof -
  have href: "verify_href push_f = Return (JStr ''https://idp.example/push'')"
    and tok: "getitem (mfa_response [sms_f, push_f]) ''stateToken'' = Return (JStr ''st0'')"
    by (simp_all add: verify_href_def push_f_def factor_json_def mfa_response_def dict_get_def)
  from remember_device_only_push[of 2 push_server push_f "mfa_response [sms_f, push_f]"
      "[authn_request push_server ''idp.example'' ''u'' ''p'']" None] href tok
  have "\<exists>toks. snd (push_factor (Suc 2) push_server push_f (mfa_response [sms_f, push_f])
                   [authn_request push_server ''idp.example'' ''u'' ''p''])
              = [authn_request push_server ''idp.example'' ''u'' ''p'']
                @ map (poll_request push_server (JStr ''https://idp.example/push''))
                    (JStr ''st0'' # toks)"
    by blast
  moreover have "snd (push_factor 3 push_server push_f (mfa_response [sms_f, push_f])
            [authn_request push_server ''idp.example'' ''u'' ''p''])
     = [authn_request push_server ''idp.example'' ''u'' ''p'',
        Request POST (JStr ''https://idp.example/push'')
          (JsonBody (JObj [(''stateToken'', JStr ''st0''), (''rememberDevice'', JBool True),
                           (''context'', JObj [(''deviceToken'', JStr ''42'')])])),
        Request POST (JStr ''https://idp.example/push'')
          (JsonBody (JObj [(''stateToken'', JStr ''st1''), (''rememberDevice'', JBool True),
                           (''context'', JObj [(''deviceToken'', JStr ''42'')])])),
        Request POST (JStr ''https://idp.example/push'')
          (JsonBody (JObj [(''stateToken'', JStr ''st2''), (''rememberDevice'', JBool True),
                           (''context'', JObj [(''deviceToken'', JStr ''42'')])]))]"
    by (simp add: eval_defs numeral_3_eq_3)
  moreover have "snd (sms_factor sms_server sms_f (mfa_response [sms_f])
            [authn_request sms_server ''idp.example'' ''u'' ''p''])
     = [authn_request sms_server ''idp.example'' ''u'' ''p'',
        Request POST (JStr ''https://idp.example/sms'')
          (JsonBody (JObj [(''stateToken'', JStr ''st0''),
                           (''context'', JObj [(''deviceToken'', JStr ''42'')])])),
        Request POST (JStr ''https://idp.example/sms'')
          (JsonBody (JObj [(''stateToken'', JStr ''st1''), (''passCode'', JStr ''654321''),
                           (''context'', JObj [(''deviceToken'', JStr ''42'')])]))]"
    by (simp add: eval_defs sms_server_def)
  ultimately show ?thesis by blast
qed

text \<open>The case of the specification: a response of status \<^verbatim>\<open>MFA_REQUIRED\<close> with no factor.\<close>

theorem no_supported_factor_witness:
  "okta_auth 5 (canned [json_response (mfa_response [])]) ''idp.example'' ''u'' ''p'' None []
     = (Raise (PyException ''No supported authentication factors''),
        [authn_request (canned [json_response (mfa_response [])]) ''idp.example'' ''u'' ''p''])"
  using no_supported_factor[where env = "canned [json_response (mfa_response [])]" and s = "[]"
      and domain = "''idp.example''" and username = "''u''" and password = "''p''"
      and r = "mfa_response []" and factors = "[]" and types = "[]" and fuel = 5
      and totp_key = None]
  by (simp add: answers_def canned_def json_response_def mfa_response_def dict_get_def)

section \<open>The process supervisor\<close>

lemma tick_blocked:
  "alive st \<Longrightarrow> SIGTERM \<in> sigmask st \<Longrightarrow>
   tick st = st\<lparr>clock := Suc (clock st), pending := pending st \<or> incoming st (clock st),
               trace := trace st @ arrival (incoming st (clock st))\<rparr>"
  by (simp add: tick_def flush_def arrival_def)

lemma tick_forward:
  "alive st \<Longrightarrow> SIGTERM \<notin> sigmask st \<Longrightarrow> handlers st SIGTERM = Terminate_child \<Longrightarrow>
   \<not> pending st \<Longrightarrow>
   tick st = st\<lparr>clock := Suc (clock st),
               trace := trace st @ arrival (incoming st (clock st))
                          @ forwarded (incoming st (clock st))\<rparr>"
  by (simp add: tick_def flush_def deliver_def arrival_def forwarded_def)

lemma setmask_forward:
  assumes "alive st" and "handlers st SIGTERM = Terminate_child"
  shows "pthread_sigmask SIG_SETMASK m st =
     (sigmask st,
      st\<lparr>sigmask := m,
         pending := SIGTERM \<in> m \<and> (pending st \<or> incoming st (clock st)),
         clock := Suc (clock st),
         trace := trace st @ [Pthread_sigmask SIG_SETMASK m]
                    @ forwarded (SIGTERM \<notin> m \<and> pending st)
                    @ arrival (incoming st (clock st))
                    @ forwarded (SIGTERM \<notin> m \<and> incoming st (clock st))\<rparr>)"
proof (cases "SIGTERM \<in> m")
  case True
  with assms show ?thesis
    by (simp add: pthread_sigmask_def flush_def tick_blocked forwarded_def)
next
  case False
  show ?thesis
  proof (cases "pending st")
    case True
    with False assms show ?thesis
      by (simp add: pthread_sigmask_def flush_def deliver_def tick_forward forwarded_def)
  next
    case no: False
    with False assms show ?thesis
      by (simp add: pthread_sigmask_def flush_def tick_forward forwarded_def)
  qed
qed

lemma enter_state:
  assumes alive: "alive st" and popen: "popen_error env = None"
    and enter: "popen_forward_sigterm_enter env args stdin st = (res, st')"
  shows "res = Return \<lparr>old_mask = sigmask st, old_handler = handlers st SIGTERM,
                        blocked_mask = insert SIGTERM (sigmask st), stdin_pipe = stdin\<rparr>
       \<and> trace st' =
           trace st
           @ [Pthread_sigmask SIG_BLOCK {SIGTERM}] @ arrival (incoming st (clock st))
           @ [Popen args stdin (sigmask st)] @ arrival (incoming st (clock st + 1))
           @ [Signal SIGTERM Terminate_child] @ arrival (incoming st (clock st + 2))
           @ [Pthread_sigmask SIG_SETMASK (sigmask st)]
           @ forwarded (SIGTERM \<notin> sigmask st \<and>
                (pending st \<or> incoming st (clock st) \<or> incoming st (clock st + 1)
                 \<or> incoming st (clock st + 2)))
           @ arrival (incoming st (clock st + 3))
           @ forwarded (SIGTERM \<notin> sigmask st \<and> incoming st (clock st + 3))
       \<and> alive st'
       \<and> sigmask st' = sigmask st
       \<and> handlers st' SIGTERM = Terminate_child
       \<and> (pending st' \<longleftrightarrow> SIGTERM \<in> sigmask st \<and>
            (pending st \<or> incoming st (clock st) \<or> incoming st (clock st + 1)
             \<or> incoming st (clock st + 2) \<or> incoming st (clock st + 3)))
       \<and> stdin_open st' = stdin
       \<and> incoming st' = incoming st"
proof -
  define st1 where "st1 = snd (signal_mask_enter SIG_BLOCK {SIGTERM} st)"
  define st2 where "st2 = snd (popen env args stdin (\<lambda>_. sigmask st) st1)"
  define st3 where "st3 = snd (signal_handler_enter SIGTERM Terminate_child st2)"
  have s1: "signal_mask_enter SIG_BLOCK {SIGTERM} st = (sigmask st, st1)"
    and f1: "alive st1" "sigmask st1 = insert SIGTERM (sigmask st)" "handlers st1 = handlers st"
      "pending st1 \<longleftrightarrow> pending st \<or> incoming st (clock st)" "clock st1 = clock st + 1"
      "incoming st1 = incoming st"
      "trace st1 = trace st @ [Pthread_sigmask SIG_BLOCK {SIGTERM}] @ arrival (incoming st (clock st))"
    using alive
    by (simp_all add: st1_def signal_mask_enter_def pthread_sigmask_def flush_def tick_blocked)
  have s2: "popen env args stdin (\<lambda>_. sigmask st) st1 = (Return (), st2)"
    and f2: "alive st2" "sigmask st2 = insert SIGTERM (sigmask st)" "handlers st2 = handlers st"
      "pending st2 \<longleftrightarrow> pending st1 \<or> incoming st (clock st + 1)" "clock st2 = clock st + 2"
      "incoming st2 = incoming st" "stdin_open st2 = stdin"
      "trace st2 = trace st1 @ [Popen args stdin (sigmask st)] @ arrival (incoming st (clock st + 1))"
    using f1 popen
    by (simp_all add: st2_def popen_def tick_blocked)
  have s3: "signal_handler_enter SIGTERM Terminate_child st2 = (handlers st SIGTERM, st3)"
    and f3: "alive st3" "sigmask st3 = insert SIGTERM (sigmask st)"
      "handlers st3 SIGTERM = Terminate_child"
      "pending st3 \<longleftrightarrow> pending st2 \<or> incoming st (clock st + 2)" "clock st3 = clock st + 3"
      "incoming st3 = incoming st" "stdin_open st3 = stdin"
      "trace st3 = trace st2 @ [Signal SIGTERM Terminate_child] @ arrival (incoming st (clock st + 2))"
    using f2
    by (simp_all add: st3_def signal_handler_enter_def signal_signal_def tick_blocked)
  note s4 = setmask_forward[OF f3(1) f3(3), of "sigmask st", folded signal_mask_enter_def]
  from enter have res: "res = Return \<lparr>old_mask = sigmask st, old_handler = handlers st SIGTERM,
                        blocked_mask = insert SIGTERM (sigmask st), stdin_pipe = stdin\<rparr>"
    and st': "st' = snd (signal_mask_enter SIG_SETMASK (sigmask st) st3)"
    by (simp_all add: popen_forward_sigterm_enter_def s1 s2 s3 s4 f3)
  show ?thesis
    using res by (simp add: st' s4 f1 f2 f3)
qed

lemma operations_append [simp]: "operations (xs @ ys) = operations xs @ operations ys"
  by (simp add: operations_def)

lemma operations_signals [simp]:
  "operations (arrival a) = []" "operations (forwarded d) = []"
  by (simp_all add: operations_def arrival_def forwarded_def)

lemma operations_Nil [simp]: "operations [] = []"
  by (simp add: operations_def)

lemma operations_Cons [simp]:
  "operations (e # es) = (if is_operation e then e # operations es else operations es)"
  by (simp add: operations_def)

lemma flush_fields [simp]:
  "sigmask (flush st) = sigmask st" "handlers (flush st) = handlers st"
  "stdin_open (flush st) = stdin_open st" "incoming (flush st) = incoming st"
  "clock (flush st) = clock st"
  "operations (trace (flush st)) = operations (trace st)"
  by (simp_all add: flush_def deliver_def operations_def)

lemma tick_fields [simp]:
  "sigmask (tick st) = sigmask st" "handlers (tick st) = handlers st"
  "stdin_open (tick st) = stdin_open st" "incoming (tick st) = incoming st"
  "operations (trace (tick st)) = operations (trace st)"
  by (simp_all add: tick_def operations_def flush_def deliver_def)









text \<open>
  Claim C7.  From a live process, when \<^verbatim>\<open>Popen\<close> starts the child, the part of
  \<^verbatim>\<open>popen_forward_sigterm\<close> before its \<^verbatim>\<open>yield\<close> leaves exactly this trace, whatever the
  schedule of the signals: \<^verbatim>\<open>SIGTERM\<close> is blocked; the child is started, and it executes
  the program with the mask the parent had before the block, so it is not born with
  \<^verbatim>\<open>SIGTERM\<close> blocked unless the parent already was; the forwarding handler is installed;
  and only then the old mask is set again.  A signal that arrives after one of the first
  three operations is only recorded as arriving.  It is delivered right after the old
  mask is set again, to the forwarding handler, which exists by then; when the old mask
  itself blocks \<^verbatim>\<open>SIGTERM\<close> it stays pending.  So no signal is delivered between the block
  and the installation of the handler, none is lost, and every delivery goes to the
  handler that terminates the child.  The parent is alive at the \<^verbatim>\<open>yield\<close>, with the old
  mask and the forwarding handler.
\<close>

theorem signal_discipline:
  assumes "alive st" and "popen_error env = None"
    and "popen_forward_sigterm_enter env args stdin st = (res, st')"
  shows "res = Return \<lparr>old_mask = sigmask st, old_handler = handlers st SIGTERM,
                        blocked_mask = insert SIGTERM (sigmask st), stdin_pipe = stdin\<rparr>
       \<and> trace st' =
           trace st
           @ [Pthread_sigmask SIG_BLOCK {SIGTERM}] @ arrival (incoming st (clock st))
           @ [Popen args stdin (sigmask st)] @ arrival (incoming st (clock st + 1))
           @ [Signal SIGTERM Terminate_child] @ arrival (incoming st (clock st + 2))
           @ [Pthread_sigmask SIG_SETMASK (sigmask st)]
           @ forwarded (SIGTERM \<notin> sigmask st \<and>
                (pending st \<or> incoming st (clock st) \<or> incoming st (clock st + 1)
                 \<or> incoming st (clock st + 2)))
           @ arrival (incoming st (clock st + 3))
           @ forwarded (SIGTERM \<notin> sigmask st \<and> incoming st (clock st + 3))
       \<and> alive st'
       \<and> sigmask st' = sigmask st
       \<and> handlers st' SIGTERM = Terminate_child
       \<and> (pending st' \<longleftrightarrow> SIGTERM \<in> sigmask st \<and>
            (pending st \<or> incoming st (clock st) \<or> incoming st (clock st + 1)
             \<or> incoming st (clock st + 2) \<or> incoming st (clock st + 3)))"
  using enter_state[OF assms] by simp

text \<open>
  A \<^verbatim>\<open>SIGTERM\<close> that arrives right after the child was started, before the handler is
  installed: it is delivered to the forwarding handler after the mask is restored.
\<close>

theorem signal_discipline_witness:
  "trace (snd (popen_forward_sigterm_enter (canned []) [''openconnect''] True
                 (fresh_process (\<lambda>n. n = 1))))
     = [Pthread_sigmask SIG_BLOCK {SIGTERM}, Popen [''openconnect''] True {},
        Arrives SIGTERM, Signal SIGTERM Terminate_child,
        Pthread_sigmask SIG_SETMASK {}, Delivered SIGTERM Terminate_child]
   \<and> alive (snd (popen_forward_sigterm_enter (canned []) [''openconnect''] True
                 (fresh_process (\<lambda>n. n = 1))))
   \<and> \<not> pending (snd (popen_forward_sigterm_enter (canned []) [''openconnect''] True
                 (fresh_process (\<lambda>n. n = 1))))"
  using signal_discipline[where st = "fresh_process (\<lambda>n. n = 1)" and env = "canned []"
      and args = "[''openconnect'']" and stdin = True
      and res = "fst (popen_forward_sigterm_enter (canned []) [''openconnect''] True
                 (fresh_process (\<lambda>n. n = 1)))"
      and st' = "snd (popen_forward_sigterm_enter (canned []) [''openconnect''] True
                 (fresh_process (\<lambda>n. n = 1)))"]
  by (simp add: fresh_process_def canned_def arrival_def forwarded_def)


section \<open>The gateway stages and the hand-over\<close>

lemma prelogin_log: "snd (prelogin env gateway s) = s @ [prelogin_request gateway]"
  by (simp add: prelogin_def send_def check_def sbind_def
      split: result.splits option.splits prod.splits)

lemma prelogin_request_explicit:
  "prelogin_request gateway
     = Request POST (JStr (''https://'' @ gateway @ ''/ssl-vpn/prelogin.esp'')) NoBody"
  by (simp add: prelogin_request_def)

lemma main_login_raises:
  assumes "totp_key = None \<or> pyotp_present env"
    and "login fuel env gateway (resolve_username env username)
           (resolve_password env gateway (resolve_username env username) password) totp_key
         = (Raise e, s)"
  shows "main fuel env gateway username password totp_key sudo st = (Uncaught e, s, st)"
  using assms by (auto simp: main_def Let_def)

text \<open>
  Claim C4.  \<open>prelogin\<close> sends one request, a POST to the prelogin address of the gateway,
  and then goes through its stages in this order, each deciding the outcome only when
  all stages before it succeeded: an HTTP error status raises \<^verbatim>\<open>HTTPError\<close>; a body that
  the XML parser rejects raises the parser's exception; a document without a
  \<^verbatim>\<open>saml-request\<close> child raises \<^verbatim>\<open>AttributeError\<close>, one with an empty \<^verbatim>\<open>saml-request\<close>
  raises \<^verbatim>\<open>TypeError\<close>; a text that \<^verbatim>\<open>b64decode\<close> rejects raises its exception; a failure
  of \<open>extract_form\<close> on the decoded page is raised; fields without \<^verbatim>\<open>SAMLRequest\<close> fail the
  assertion; otherwise the result is the action of the form, a question mark and the
  URL-encoded fields.  Whatever \<open>prelogin\<close> raises ends \<open>main\<close>: the exception is not caught,
  no other request is sent and the process state is untouched.
\<close>

theorem prelogin_pipeline:
  assumes "resp = http env (s @ [Request POST (JStr (''https://'' @ gateway @ ''/ssl-vpn/prelogin.esp'')) NoBody])"
  shows "snd (prelogin env gateway s)
           = s @ [Request POST (JStr (''https://'' @ gateway @ ''/ssl-vpn/prelogin.esp'')) NoBody]
   \<and> (400 \<le> status_code resp \<and> status_code resp < 600 \<longrightarrow>
        fst (prelogin env gateway s) = Raise HTTPError)
   \<and> (\<not> (400 \<le> status_code resp \<and> status_code resp < 600) \<longrightarrow>
        (\<forall>e. parse_xml env (content resp) = Raise e \<longrightarrow> fst (prelogin env gateway s) = Raise e)
      \<and> (\<forall>root. parse_xml env (content resp) = Return root \<longrightarrow>
           (find_child ''saml-request'' root = None \<longrightarrow>
              fst (prelogin env gateway s) = Raise AttributeError)
         \<and> (\<forall>el. find_child ''saml-request'' root = Some el \<longrightarrow>
              (etext el = None \<longrightarrow> fst (prelogin env gateway s) = Raise TypeError)
            \<and> (\<forall>t. etext el = Some t \<longrightarrow>
                 (\<forall>e. b64decode env t = Raise e \<longrightarrow> fst (prelogin env gateway s) = Raise e)
               \<and> (\<forall>html. b64decode env t = Return html \<longrightarrow>
                    (\<forall>e. extract_form (parse_html env) html = Raise e \<longrightarrow>
                       fst (prelogin env gateway s) = Raise e)
                  \<and> (\<forall>action fields.
                       extract_form (parse_html env) html = Return (action, fields) \<longrightarrow>
                       (''SAMLRequest'' \<notin> fst ` set fields \<longrightarrow>
                          fst (prelogin env gateway s) = Raise AssertionError)
                     \<and> (''SAMLRequest'' \<in> fst ` set fields \<longrightarrow>
                          fst (prelogin env gateway s)
                            = Return (action @ ''?'' @ urlencode env fields))))))))
   \<and> (\<forall>e st. (totp_key = None \<or> pyotp_present env) \<longrightarrow>
          fst (prelogin env gateway []) = Raise e \<longrightarrow>
          main fuel env gateway username password totp_key sudo st
            = (Uncaught e,
               [Request POST (JStr (''https://'' @ gateway @ ''/ssl-vpn/prelogin.esp'')) NoBody],
               st))"
proof (intro conjI)
  show "snd (prelogin env gateway s)
           = s @ [Request POST (JStr (''https://'' @ gateway @ ''/ssl-vpn/prelogin.esp'')) NoBody]"
    by (simp add: prelogin_log prelogin_request_explicit)
  show "400 \<le> status_code resp \<and> status_code resp < 600 \<longrightarrow>
        fst (prelogin env gateway s) = Raise HTTPError"
    using assms by (simp add: prelogin_def send_def check_def prelogin_request_explicit)
  show "\<not> (400 \<le> status_code resp \<and> status_code resp < 600) \<longrightarrow>
        (\<forall>e. parse_xml env (content resp) = Raise e \<longrightarrow> fst (prelogin env gateway s) = Raise e)
      \<and> (\<forall>root. parse_xml env (content resp) = Return root \<longrightarrow>
           (find_child ''saml-request'' root = None \<longrightarrow>
              fst (prelogin env gateway s) = Raise AttributeError)
         \<and> (\<forall>el. find_child ''saml-request'' root = Some el \<longrightarrow>
              (etext el = None \<longrightarrow> fst (prelogin env gateway s) = Raise TypeError)
            \<and> (\<forall>t. etext el = Some t \<longrightarrow>
                 (\<forall>e. b64decode env t = Raise e \<longrightarrow> fst (prelogin env gateway s) = Raise e)
               \<and> (\<forall>html. b64decode env t = Return html \<longrightarrow>
                    (\<forall>e. extract_form (parse_html env) html = Raise e \<longrightarrow>
                       fst (prelogin env gateway s) = Raise e)
                  \<and> (\<forall>action fields.
                       extract_form (parse_html env) html = Return (action, fields) \<longrightarrow>
                       (''SAMLRequest'' \<notin> fst ` set fields \<longrightarrow>
                          fst (prelogin env gateway s) = Raise AssertionError)
                     \<and> (''SAMLRequest'' \<in> fst ` set fields \<longrightarrow>
                          fst (prelogin env gateway s)
                            = Return (action @ ''?'' @ urlencode env fields)))))))"
    using assms
    by (auto simp: prelogin_def send_def check_def prelogin_request_explicit)
  show "\<forall>e st. (totp_key = None \<or> pyotp_present env) \<longrightarrow>
          fst (prelogin env gateway []) = Raise e \<longrightarrow>
          main fuel env gateway username password totp_key sudo st
            = (Uncaught e,
               [Request POST (JStr (''https://'' @ gateway @ ''/ssl-vpn/prelogin.esp'')) NoBody],
               st)"
  proof (intro allI impI)
    fix e st
    assume totp: "totp_key = None \<or> pyotp_present env"
      and raised: "fst (prelogin env gateway []) = Raise e"
    have "prelogin env gateway [] = (Raise e, [prelogin_request gateway])"
      using raised prelogin_log[of env gateway "[]"]
      by (cases "prelogin env gateway []") simp
    then have "login fuel env gateway (resolve_username env username)
           (resolve_password env gateway (resolve_username env username) password) totp_key
         = (Raise e, [prelogin_request gateway])"
      by (simp add: login_def)
    from main_login_raises[OF totp this]
    show "main fuel env gateway username password totp_key sudo st
            = (Uncaught e,
               [Request POST (JStr (''https://'' @ gateway @ ''/ssl-vpn/prelogin.esp'')) NoBody],
               st)"
      by (simp add: prelogin_request_explicit)
  qed
qed

lemmas trip_defs =
  round_trip_def canned_def page_response_def json_response_def completion_response_def
  good_completion_def bad_completion_def no_response_def prelogin_xml_def prelogin_doc_def
  request_b64_def request_html_def response_html_def request_page_def response_page_def
  success_response_def failed_gateway_def error_xml_def error_doc_def

lemma prelogin_round_trip:
  "prelogin (round_trip c) ''vpn.example'' []
     = (Return ''https://idp.example/sso?SAMLRequest=abc'',
        [Request POST (JStr ''https://vpn.example/ssl-vpn/prelogin.esp'') NoBody])"
  by (simp add: prelogin_def send_def check_def prelogin_request_def trip_defs find_child_def
      extract_form_def find_descendant_def findall_def dict_get_def)

text \<open>
  The prelogin of the round trip gives the request address with \<^verbatim>\<open>SAMLRequest=abc\<close> as
  query; a gateway whose answer has no \<^verbatim>\<open>saml-request\<close> element ends \<open>main\<close> with
  \<^verbatim>\<open>AttributeError\<close> after the one request.
\<close>

theorem prelogin_pipeline_witness:
  "prelogin (round_trip good_completion) ''vpn.example'' []
     = (Return ''https://idp.example/sso?SAMLRequest=abc'',
        [Request POST (JStr ''https://vpn.example/ssl-vpn/prelogin.esp'') NoBody])
   \<and> main 5 failed_gateway ''vpn.example'' (Some ''alice'') (Some ''pw'') None False
         (fresh_process (\<lambda>_. False))
     = (Uncaught AttributeError,
        [Request POST (JStr ''https://vpn.example/ssl-vpn/prelogin.esp'') NoBody],
        fresh_process (\<lambda>_. False))"
proof -
  have a: "fst (prelogin (round_trip good_completion) ''vpn.example'' [])
             = Return (''https://idp.example/sso'' @ ''?''
                 @ urlencode (round_trip good_completion) [(''SAMLRequest'', ''abc'')])"
    using prelogin_pipeline[where env = "round_trip good_completion" and gateway = "''vpn.example''"
        and s = "[]" and resp = "page_response prelogin_xml"]
    by (simp add: trip_defs find_child_def extract_form_def find_descendant_def findall_def
        dict_get_def)
  have b: "snd (prelogin (round_trip good_completion) ''vpn.example'' [])
             = [Request POST (JStr ''https://vpn.example/ssl-vpn/prelogin.esp'') NoBody]"
    by (simp add: prelogin_log prelogin_request_def)
  have c: "fst (prelogin failed_gateway ''vpn.example'' []) = Raise AttributeError"
    using prelogin_pipeline[where env = failed_gateway and gateway = "''vpn.example''"
        and s = "[]" and resp = "page_response error_xml"]
    by (simp add: trip_defs find_child_def)
  have d: "main 5 failed_gateway ''vpn.example'' (Some ''alice'') (Some ''pw'') None False
         (fresh_process (\<lambda>_. False))
     = (Uncaught AttributeError,
        [Request POST (JStr ''https://vpn.example/ssl-vpn/prelogin.esp'') NoBody],
        fresh_process (\<lambda>_. False))"
    using prelogin_pipeline[where env = failed_gateway and gateway = "''vpn.example''"
        and s = "[]" and resp = "page_response error_xml" and totp_key = None
        and fuel = 5 and username = "Some ''alice''" and password = "Some ''pw''" and sudo = False] c
    by (simp add: trip_defs)
  from a b have "prelogin (round_trip good_completion) ''vpn.example'' []
     = (Return ''https://idp.example/sso?SAMLRequest=abc'',
        [Request POST (JStr ''https://vpn.example/ssl-vpn/prelogin.esp'') NoBody])"
    by (cases "prelogin (round_trip good_completion) ''vpn.example'' []")
      (simp add: round_trip_def)
  with d show ?thesis by simp
qed

lemma lower_names [simp]:
  "lower ''saml-username'' = ''saml-username''" "lower ''prelogin-cookie'' = ''prelogin-cookie''"
  by (simp_all add: lower_def lower_char_def)

lemma complete_saml_log:
  "snd (complete_saml env saml_resp_url saml_resp_data s)
     = s @ [Request POST (JStr saml_resp_url) (FormData saml_resp_data)]"
  by (simp add: complete_saml_def send_def check_def sbind_def header_def
      split: result.splits option.splits prod.splits)

text \<open>
  Claim C6.  \<open>complete_saml\<close> posts the form; when the response passes
  \<^verbatim>\<open>raise_for_status\<close> and carries the headers \<^verbatim>\<open>saml-username\<close> and \<^verbatim>\<open>prelogin-cookie\<close>
  (names compared without regard to case), it returns the pair of their values; when
  one of the two is absent it raises \<^verbatim>\<open>KeyError\<close> (the specification's
  \<^verbatim>\<open>MalformedResponseError\<close>).  And when \<open>complete_saml\<close> raises in \<open>main\<close>, the exception
  ends \<open>main\<close> with the process state it started with: no operation of the process
  supervisor has run, no child was started.
\<close>

theorem complete_saml_headers:
  assumes "resp = http env (s @ [Request POST (JStr saml_resp_url) (FormData saml_resp_data)])"
    and "\<not> (400 \<le> status_code resp \<and> status_code resp < 600)"
  shows "(\<forall>k1 u k2 c.
            List.find (\<lambda>kv. lower (fst kv) = ''saml-username'') (headers resp) = Some (k1, u) \<longrightarrow>
            List.find (\<lambda>kv. lower (fst kv) = ''prelogin-cookie'') (headers resp) = Some (k2, c) \<longrightarrow>
            complete_saml env saml_resp_url saml_resp_data s
              = (Return (u, c),
                 s @ [Request POST (JStr saml_resp_url) (FormData saml_resp_data)]))
   \<and> ((\<forall>kv \<in> set (headers resp). lower (fst kv) \<noteq> ''saml-username'')
        \<or> (\<forall>kv \<in> set (headers resp). lower (fst kv) \<noteq> ''prelogin-cookie'') \<longrightarrow>
        complete_saml env saml_resp_url saml_resp_data s
          = (Raise KeyError, s @ [Request POST (JStr saml_resp_url) (FormData saml_resp_data)]))
   \<and> (\<forall>saml_req_url s1 e st.
          (totp_key = None \<or> pyotp_present env) \<longrightarrow>
          prelogin env gateway [] = (Return saml_req_url, s1) \<longrightarrow>
          okta_saml fuel env saml_req_url (resolve_username env username)
            (resolve_password env gateway (resolve_username env username) password) totp_key s1
            = (Return (saml_resp_url, saml_resp_data), s) \<longrightarrow>
          fst (complete_saml env saml_resp_url saml_resp_data s) = Raise e \<longrightarrow>
          main fuel env gateway username password totp_key sudo st
            = (Uncaught e, s @ [Request POST (JStr saml_resp_url) (FormData saml_resp_data)], st))"
proof (intro conjI allI impI)
  fix k1 u k2 c
  assume "List.find (\<lambda>kv. lower (fst kv) = ''saml-username'') (headers resp) = Some (k1, u)"
    and "List.find (\<lambda>kv. lower (fst kv) = ''prelogin-cookie'') (headers resp) = Some (k2, c)"
  with assms show "complete_saml env saml_resp_url saml_resp_data s
              = (Return (u, c),
                 s @ [Request POST (JStr saml_resp_url) (FormData saml_resp_data)])"
    by (simp add: complete_saml_def send_def check_def header_def)
next
  assume "(\<forall>kv \<in> set (headers resp). lower (fst kv) \<noteq> ''saml-username'')
        \<or> (\<forall>kv \<in> set (headers resp). lower (fst kv) \<noteq> ''prelogin-cookie'')"
  then have "List.find (\<lambda>kv. lower (fst kv) = ''saml-username'') (headers resp) = None
      \<or> List.find (\<lambda>kv. lower (fst kv) = ''prelogin-cookie'') (headers resp) = None"
    by (auto simp: find_None_iff)
  with assms show "complete_saml env saml_resp_url saml_resp_data s
          = (Raise KeyError, s @ [Request POST (JStr saml_resp_url) (FormData saml_resp_data)])"
    by (auto simp: complete_saml_def send_def check_def header_def split: option.splits)
next
  fix saml_req_url s1 e st
  assume totp: "totp_key = None \<or> pyotp_present env"
    and pre: "prelogin env gateway [] = (Return saml_req_url, s1)"
    and saml: "okta_saml fuel env saml_req_url (resolve_username env username)
            (resolve_password env gateway (resolve_username env username) password) totp_key s1
            = (Return (saml_resp_url, saml_resp_data), s)"
    and raised: "fst (complete_saml env saml_resp_url saml_resp_data s) = Raise e"
  have "complete_saml env saml_resp_url saml_resp_data s
          = (Raise e, s @ [Request POST (JStr saml_resp_url) (FormData saml_resp_data)])"
    using raised complete_saml_log[of env saml_resp_url saml_resp_data s]
    by (cases "complete_saml env saml_resp_url saml_resp_data s") simp
  then have "login fuel env gateway (resolve_username env username)
           (resolve_password env gateway (resolve_username env username) password) totp_key
         = (Raise e, s @ [Request POST (JStr saml_resp_url) (FormData saml_resp_data)])"
    by (simp add: login_def pre saml)
  from main_login_raises[OF totp this]
  show "main fuel env gateway username password totp_key sudo st
            = (Uncaught e, s @ [Request POST (JStr saml_resp_url) (FormData saml_resp_data)], st)"
    .
qed


lemma okta_saml_round_trip:
  "okta_saml 5 (round_trip c) ''https://idp.example/sso?SAMLRequest=abc'' ''alice@x'' ''pw'' None
     [Request POST (JStr ''https://vpn.example/ssl-vpn/prelogin.esp'') NoBody]
   = (Return (''https://vpn.example/acs'', [(''SAMLResponse'', ''xyz'')]), trip_requests)"
  by (simp add: okta_saml_def okta_auth_def post_json_def json_request_def send_def check_def
      trip_defs trip_requests_def extract_form_def find_descendant_def findall_def dict_get_def)

lemma resolve_given [simp]:
  "resolve_username env (Some u) = u" "resolve_password env gateway u (Some p) = p"
  by (simp_all add: resolve_username_def resolve_password_def)

lemma http_completion:
  "http (round_trip c) (trip_requests @ [q]) = c"
  by (simp add: round_trip_def canned_def trip_requests_def)

lemma lower_examples [simp]:
  "lower ''Saml-Username'' = ''saml-username''" "lower ''Prelogin-Cookie'' = ''prelogin-cookie''"
  by (simp_all add: lower_def lower_char_def)

text \<open>
  The completion of the round trip returns \<^verbatim>\<open>alice\<close> and \<^verbatim>\<open>cookie123\<close>; without the
  header \<^verbatim>\<open>prelogin-cookie\<close> it raises \<^verbatim>\<open>KeyError\<close>, and \<open>main\<close> ends with the process as
  it was.
\<close>

theorem complete_saml_headers_witness:
  "complete_saml (round_trip good_completion) ''https://vpn.example/acs''
       [(''SAMLResponse'', ''xyz'')] trip_requests
     = (Return (''alice'', ''cookie123''), trip_requests @ [completion_request])
   \<and> complete_saml (round_trip bad_completion) ''https://vpn.example/acs''
       [(''SAMLResponse'', ''xyz'')] trip_requests
     = (Raise KeyError, trip_requests @ [completion_request])
   \<and> main 5 (round_trip bad_completion) ''vpn.example'' (Some ''alice@x'') (Some ''pw'') None False
         (fresh_process (\<lambda>_. False))
     = (Uncaught KeyError, trip_requests @ [completion_request], fresh_process (\<lambda>_. False))"
proof -
  have a: "complete_saml (round_trip good_completion) ''https://vpn.example/acs''
       [(''SAMLResponse'', ''xyz'')] trip_requests
     = (Return (''alice'', ''cookie123''), trip_requests @ [completion_request])"
    using complete_saml_headers[where env = "round_trip good_completion" and s = trip_requests
        and saml_resp_url = "''https://vpn.example/acs''"
        and saml_resp_data = "[(''SAMLResponse'', ''xyz'')]" and resp = good_completion]
    by (simp add: http_completion completion_request_def)
      (simp add: good_completion_def completion_response_def)
  have b: "complete_saml (round_trip bad_completion) ''https://vpn.example/acs''
       [(''SAMLResponse'', ''xyz'')] trip_requests
     = (Raise KeyError, trip_requests @ [completion_request])"
    using complete_saml_headers[where env = "round_trip bad_completion" and s = trip_requests
        and saml_resp_url = "''https://vpn.example/acs''"
        and saml_resp_data = "[(''SAMLResponse'', ''xyz'')]" and resp = bad_completion]
    by (simp add: http_completion completion_request_def)
      (simp add: bad_completion_def completion_response_def)
  have c: "main 5 (round_trip bad_completion) ''vpn.example'' (Some ''alice@x'') (Some ''pw'') None False
         (fresh_process (\<lambda>_. False))
     = (Uncaught KeyError, trip_requests @ [completion_request], fresh_process (\<lambda>_. False))"
    using complete_saml_headers[where env = "round_trip bad_completion" and s = trip_requests
        and saml_resp_url = "''https://vpn.example/acs''"
        and saml_resp_data = "[(''SAMLResponse'', ''xyz'')]" and resp = bad_completion
        and totp_key = None and gateway = "''vpn.example''" and fuel = 5
        and username = "Some ''alice@x''" and password = "Some ''pw''" and sudo = False]
      b prelogin_round_trip[of bad_completion] okta_saml_round_trip[of bad_completion]
    by (simp add: http_completion completion_request_def)
      (simp add: bad_completion_def completion_response_def)
  from a b c show ?thesis by simp
qed



end
